theory Spec2Isabelle
  imports Main
begin

section \<open>Values, telemetry events and the process state\<close>

text \<open>
  The program is \<^verbatim>\<open>go-app/main.go\<close>: one Go process that builds three OpenTelemetry
  pipelines, serves three HTTP endpoints and tears the pipelines down on exit. Everything
  the program does is a call into an imported package, so the model records each such
  call as an event of an append-only log, in program order, and the theorems read the log.

  A Go \<^verbatim>\<open>error\<close> is a message, or a message wrapping another error
  (\<^verbatim>\<open>fmt.Errorf("...: %w", err)\<close>); \<^verbatim>\<open>nil\<close> is \<open>None\<close> of \<open>error option\<close>.
\<close>

datatype error = Error string | Wrap string error

fun error_msg :: "error \<Rightarrow> string" where
  "error_msg (Error m) = m"
| "error_msg (Wrap m e) = m @ '': '' @ error_msg e"

fun unwrap :: "error \<Rightarrow> error option" where
  "unwrap (Error m) = None"
| "unwrap (Wrap m e) = Some e"

text \<open>Attribute values (\<^verbatim>\<open>attribute.String\<close>, \<^verbatim>\<open>Int\<close>, \<^verbatim>\<open>Bool\<close>, and durations, kept in
  milliseconds instead of floating-point seconds).\<close>

datatype val = StringVal string | IntVal int | BoolVal bool | MillisVal nat

type_synonym attrs = "(string \<times> val) list"

datatype severity = SeverityUndefined | SeverityInfo | SeverityError

text \<open>\<^verbatim>\<open>otellog.Record\<close>; \<open>empty_record\<close> is the zero value \<^verbatim>\<open>otellog.Record{}\<close>.\<close>

record log_record =
  lr_timestamp :: nat
  lr_severity :: severity
  lr_body :: string
  lr_attributes :: attrs

definition empty_record :: log_record where
  "empty_record = \<lparr>lr_timestamp = 0, lr_severity = SeverityUndefined, lr_body = [], lr_attributes = []\<rparr>"

text \<open>A span context is the pair (trace id, span id). A \<^verbatim>\<open>context.Context\<close> is modelled
  by the one thing the program reads from it: the span context it carries, if any.\<close>

record span_context =
  trace_id :: nat
  span_id :: nat

type_synonym gocontext = "span_context option"

text \<open>The global text-map propagator of the \<^verbatim>\<open>otel\<close> package. The package starts with the
  no-op propagator; only \<^verbatim>\<open>otel.SetTextMapPropagator\<close> replaces it.\<close>

datatype propagator = NoopPropagator | TraceContextPropagator

datatype event =
    SpanStart string span_context "nat option" nat
  | SpanEnd nat nat
  | SpanAddEvent nat string
  | SpanSetAttributes nat attrs
  | CounterAdd string int attrs
  | UpDownAdd string int
  | HistogramRecord string nat attrs
  | LogEmit string gocontext log_record
  | ResponseWrite string
  | HttpError string nat
  | HttpSend string string gocontext
  | BodyClose
  | LibCall string string
  | SetGlobal string
  | ListenAndServe string
  | AwaitInterrupt
  | LogPrintln string
  | LogFatal string

text \<open>
  The state shared by everything in the process: the wall clock (milliseconds), the id
  generator of the tracer provider, the random source behind \<^verbatim>\<open>rand.Intn\<close>, the global
  propagator and the log of events so far (oldest first).
\<close>

record world =
  clock :: nat
  next_id :: nat
  rng :: "nat \<Rightarrow> nat"
  rng_pos :: nat
  global_propagator :: propagator
  events :: "event list"

definition record_event :: "event \<Rightarrow> world \<Rightarrow> world" where
  "record_event e w = w\<lparr>events := events w @ [e]\<rparr>"

definition new_events :: "world \<Rightarrow> world \<Rightarrow> event list" where
  "new_events w w' = drop (length (events w)) (events w')"

section \<open>Go function bodies: statements, defer, return, panic, exit\<close>

text \<open>
  A function body runs in a frame: the shared state plus the stack of deferred calls of
  this activation. A statement either falls through with a value, returns from the
  function, panics, or ends the process (\<^verbatim>\<open>os.Exit\<close>, reached through \<^verbatim>\<open>log.Fatal\<close>).
\<close>

datatype 'r outcome = Result 'r | Panic string | Exit nat

record frame =
  fworld :: world
  deferred :: "(world \<Rightarrow> unit outcome \<times> world) list"

datatype ('a, 'r) exit = Next 'a | Returned 'r | Panicked string | Exited nat

type_synonym ('a, 'r) go = "frame \<Rightarrow> ('a, 'r) exit \<times> frame"

definition go_bind :: "('a, 'r) go \<Rightarrow> ('a \<Rightarrow> ('b, 'r) go) \<Rightarrow> ('b, 'r) go" where
  "go_bind m f fr =
     (case m fr of
        (Next a, fr') \<Rightarrow> f a fr'
      | (Returned r, fr') \<Rightarrow> (Returned r, fr')
      | (Panicked p, fr') \<Rightarrow> (Panicked p, fr')
      | (Exited n, fr') \<Rightarrow> (Exited n, fr'))"

definition yield :: "'a \<Rightarrow> ('a, 'r) go" where
  "yield a fr = (Next a, fr)"

definition go_return :: "'r \<Rightarrow> ('a, 'r) go" where
  "go_return r fr = (Returned r, fr)"

definition go_panic :: "string \<Rightarrow> ('a, 'r) go" where
  "go_panic p fr = (Panicked p, fr)"

definition os_Exit :: "nat \<Rightarrow> ('a, 'r) go" where
  "os_Exit n fr = (Exited n, fr)"

text \<open>A library call that only has an effect, and one that also gives a value back.\<close>

definition act :: "(world \<Rightarrow> world) \<Rightarrow> (unit, 'r) go" where
  "act f fr = (Next (), fr\<lparr>fworld := f (fworld fr)\<rparr>)"

definition go_eval :: "(world \<Rightarrow> 'a \<times> world) \<Rightarrow> ('a, 'r) go" where
  "go_eval f fr = (case f (fworld fr) of (a, w') \<Rightarrow> (Next a, fr\<lparr>fworld := w'\<rparr>))"

text \<open>\<^verbatim>\<open>defer f(args)\<close>: the call is pushed; it runs when the function is left. A deferred
  call is a complete function call; \<open>effect\<close> is one that only has an effect.\<close>

definition effect :: "(world \<Rightarrow> world) \<Rightarrow> world \<Rightarrow> unit outcome \<times> world" where
  "effect f w = (Result (), f w)"

definition go_defer :: "(world \<Rightarrow> unit outcome \<times> world) \<Rightarrow> (unit, 'r) go" where
  "go_defer d fr = (Next (), fr\<lparr>deferred := d # deferred fr\<rparr>)"

text \<open>A sequence of statements, and \<^verbatim>\<open>if c { ... }\<close> without an else branch.\<close>

fun block :: "(unit, 'r) go list \<Rightarrow> (unit, 'r) go" where
  "block [] = yield ()"
| "block (s # ss) = go_bind s (\<lambda>_. block ss)"

definition go_if :: "bool \<Rightarrow> (unit, 'r) go \<Rightarrow> (unit, 'r) go" where
  "go_if c s = (if c then s else yield ())"

text \<open>
  Leaving a function runs its deferred calls, last pushed first. A deferred call that
  panics replaces the outcome by its panic and the remaining ones still run (the program
  never calls \<^verbatim>\<open>recover\<close>); one that ends the process ends it there.
\<close>

fun run_deferred :: "(world \<Rightarrow> unit outcome \<times> world) list \<Rightarrow> 'r outcome \<Rightarrow> world \<Rightarrow> 'r outcome \<times> world" where
  "run_deferred [] oc w = (oc, w)"
| "run_deferred (d # ds) oc w =
     (case d w of
        (Result _, w') \<Rightarrow> run_deferred ds oc w'
      | (Panic p, w') \<Rightarrow> run_deferred ds (Panic p) w'
      | (Exit n, w') \<Rightarrow> (Exit n, w'))"

text \<open>
  Calling a function: the body runs in a fresh frame. On a normal end, a return or a
  panic the deferred calls run; \<^verbatim>\<open>os.Exit\<close> ends the process at once and runs none of
  them. Reaching the end of the body returns its last value.
\<close>

definition go_call :: "('r, 'r) go \<Rightarrow> world \<Rightarrow> 'r outcome \<times> world" where
  "go_call body w =
     (case body \<lparr>fworld = w, deferred = []\<rparr> of
        (Next r, fr) \<Rightarrow> run_deferred (deferred fr) (Result r) (fworld fr)
      | (Returned r, fr) \<Rightarrow> run_deferred (deferred fr) (Result r) (fworld fr)
      | (Panicked p, fr) \<Rightarrow> run_deferred (deferred fr) (Panic p) (fworld fr)
      | (Exited n, fr) \<Rightarrow> (Exit n, fworld fr))"

text \<open>A call made from inside another body: a panic or an exit of the callee goes on
  through the caller.\<close>

definition go_invoke :: "('a, 'a) go \<Rightarrow> ('a, 'r) go" where
  "go_invoke body fr =
     (case go_call body (fworld fr) of
        (Result a, w') \<Rightarrow> (Next a, fr\<lparr>fworld := w'\<rparr>)
      | (Panic p, w') \<Rightarrow> (Panicked p, fr\<lparr>fworld := w'\<rparr>)
      | (Exit n, w') \<Rightarrow> (Exited n, fr\<lparr>fworld := w'\<rparr>))"

section \<open>The library calls the handlers make\<close>

text \<open>
  Time is in milliseconds. The clock is read by \<^verbatim>\<open>time.Now\<close> and moved by \<^verbatim>\<open>time.Sleep\<close>
  and by waiting for a remote answer; it never goes back. \<^verbatim>\<open>rand.Intn(n)\<close> takes the next
  value of the random source, reduced below \<open>n\<close>. Trace ids and span ids come from one
  counter, so no two of them are equal.
\<close>

definition time_Now :: "world \<Rightarrow> nat \<times> world" where
  "time_Now w = (clock w, w)"

definition time_Sleep :: "nat \<Rightarrow> world \<Rightarrow> world" where
  "time_Sleep d w = w\<lparr>clock := clock w + d\<rparr>"

definition rand_Intn :: "nat \<Rightarrow> world \<Rightarrow> nat \<times> world" where
  "rand_Intn n w = (rng w (rng_pos w) mod n, w\<lparr>rng_pos := Suc (rng_pos w)\<rparr>)"

text \<open>
  \<^verbatim>\<open>tracer.Start(ctx, name)\<close>: a span context in \<open>ctx\<close> becomes the parent and gives its
  trace id; without one the span is the root of a new trace. The call returns the derived
  context and the span.
\<close>

definition new_span_context :: "gocontext \<Rightarrow> nat \<Rightarrow> span_context" where
  "new_span_context ctx n =
     \<lparr>trace_id = (case ctx of Some p \<Rightarrow> trace_id p | None \<Rightarrow> Suc n), span_id = n\<rparr>"

definition tracer_Start :: "gocontext \<Rightarrow> string \<Rightarrow> world \<Rightarrow> (gocontext \<times> span_context) \<times> world" where
  "tracer_Start ctx name w =
     (let sc = new_span_context ctx (next_id w)
      in ((Some sc, sc),
          w\<lparr>next_id := next_id w + 2,
            events := events w @ [SpanStart name sc (map_option span_id ctx) (clock w)]\<rparr>))"

definition span_End :: "span_context \<Rightarrow> world \<Rightarrow> world" where
  "span_End span w = record_event (SpanEnd (span_id span) (clock w)) w"

definition span_AddEvent :: "span_context \<Rightarrow> string \<Rightarrow> world \<Rightarrow> world" where
  "span_AddEvent span name = record_event (SpanAddEvent (span_id span) name)"

definition span_SetAttributes :: "span_context \<Rightarrow> attrs \<Rightarrow> world \<Rightarrow> world" where
  "span_SetAttributes span kvs = record_event (SpanSetAttributes (span_id span) kvs)"

definition counter_Add :: "string \<Rightarrow> int \<Rightarrow> attrs \<Rightarrow> world \<Rightarrow> world" where
  "counter_Add name n kvs = record_event (CounterAdd name n kvs)"

definition updown_Add :: "string \<Rightarrow> int \<Rightarrow> world \<Rightarrow> world" where
  "updown_Add name n = record_event (UpDownAdd name n)"

definition histogram_Record :: "string \<Rightarrow> nat \<Rightarrow> attrs \<Rightarrow> world \<Rightarrow> world" where
  "histogram_Record name v kvs = record_event (HistogramRecord name v kvs)"

definition logger_Emit :: "string \<Rightarrow> gocontext \<Rightarrow> log_record \<Rightarrow> world \<Rightarrow> world" where
  "logger_Emit logger ctx r = record_event (LogEmit logger ctx r)"

definition fmt_Fprintln :: "string \<Rightarrow> world \<Rightarrow> world" where
  "fmt_Fprintln s = record_event (ResponseWrite s)"

definition http_Error :: "string \<Rightarrow> nat \<Rightarrow> world \<Rightarrow> world" where
  "http_Error msg code = record_event (HttpError msg code)"

definition StatusInternalServerError :: nat where
  "StatusInternalServerError = 500"

section \<open>emitLog\<close>

text \<open>
  \<^verbatim>\<open>
  func emitLog(ctx, logger, severity, body, attrs ...otellog.KeyValue) {
      record := otellog.Record{}
      record.SetTimestamp(time.Now())
      record.SetSeverity(severity)
      record.SetBody(otellog.StringValue(body))
      if len(attrs) > 0 { record.AddAttributes(attrs...) }
      logger.Emit(ctx, record)
  }
  \<close>
  The logger is named by the string given to \<^verbatim>\<open>global.Logger\<close>.
\<close>

definition SetTimestamp :: "nat \<Rightarrow> log_record \<Rightarrow> log_record" where
  "SetTimestamp t r = r\<lparr>lr_timestamp := t\<rparr>"

definition SetSeverity :: "severity \<Rightarrow> log_record \<Rightarrow> log_record" where
  "SetSeverity s r = r\<lparr>lr_severity := s\<rparr>"

definition SetBody :: "string \<Rightarrow> log_record \<Rightarrow> log_record" where
  "SetBody b r = r\<lparr>lr_body := b\<rparr>"

definition AddAttributes :: "attrs \<Rightarrow> log_record \<Rightarrow> log_record" where
  "AddAttributes kvs r = r\<lparr>lr_attributes := lr_attributes r @ kvs\<rparr>"

definition emitLog :: "gocontext \<Rightarrow> string \<Rightarrow> severity \<Rightarrow> string \<Rightarrow> attrs \<Rightarrow> (unit, unit) go" where
  "emitLog ctx logger severity body kvs =
     go_bind (go_eval time_Now) (\<lambda>now.
       let record = empty_record;
           record = SetTimestamp now record;
           record = SetSeverity severity record;
           record = SetBody body record;
           record = (if length kvs > 0 then AddAttributes kvs record else record)
       in act (logger_Emit logger ctx record))"

section \<open>HTTP requests, propagation and the instrumented transport\<close>

text \<open>
  A request is its target, the trace-context header it carries (\<^verbatim>\<open>traceparent\<close>; absent
  when \<open>None\<close>) and its \<^verbatim>\<open>r.Context()\<close>. A handler is a Go function of the response
  writer and the request; what it writes to the response writer goes to the log.
\<close>

record request =
  url_host :: string
  url_path :: string
  traceparent :: gocontext
  req_ctx :: gocontext

type_synonym handler = "request \<Rightarrow> (unit, unit) go"

text \<open>A response is its status code and its body, of which the program only uses
  \<^verbatim>\<open>Close\<close>.\<close>

record response =
  StatusCode :: nat
  Body_Close :: "world \<Rightarrow> world"

type_synonym round_tripper = "request \<Rightarrow> (error + response, unit) go"

definition http_NewRequestWithContext :: "gocontext \<Rightarrow> string \<Rightarrow> string \<Rightarrow> request" where
  "http_NewRequestWithContext ctx host path =
     \<lparr>url_host = host, url_path = path, traceparent = None, req_ctx = ctx\<rparr>"

text \<open>
  Injection and extraction by the global propagator. The no-op propagator writes no header
  and reads none; the W3C trace-context propagator writes the span context of \<open>ctx\<close> into
  the header and reads it back on the other side.
\<close>

definition prop_Inject :: "propagator \<Rightarrow> gocontext \<Rightarrow> request \<Rightarrow> request" where
  "prop_Inject p ctx r =
     (case p of
        NoopPropagator \<Rightarrow> r
      | TraceContextPropagator \<Rightarrow> (case ctx of None \<Rightarrow> r | Some sc \<Rightarrow> r\<lparr>traceparent := Some sc\<rparr>))"

definition prop_Extract :: "propagator \<Rightarrow> gocontext \<Rightarrow> request \<Rightarrow> gocontext" where
  "prop_Extract p ctx r =
     (case p of
        NoopPropagator \<Rightarrow> ctx
      | TraceContextPropagator \<Rightarrow> (case traceparent r of None \<Rightarrow> ctx | Some sc \<Rightarrow> Some sc))"

text \<open>
  \<^verbatim>\<open>otelhttp.NewHandler(h, operation)\<close>: prop_Extract the remote context from the headers with
  the global propagator, start the server span in it, and run \<open>h\<close> on the request with the
  derived context; the span ends when \<open>h\<close> is left.
\<close>

definition otelhttp_NewHandler :: "handler \<Rightarrow> string \<Rightarrow> handler" where
  "otelhttp_NewHandler h operation r =
     go_bind (go_eval (\<lambda>w. (prop_Extract (global_propagator w) (req_ctx r) r, w))) (\<lambda>ctx.
     go_bind (go_eval (tracer_Start ctx operation)) (\<lambda>(ctx, span).
     block [
       go_defer (effect (span_End span)),
       go_invoke (h (r\<lparr>req_ctx := ctx\<rparr>))
     ]))"

text \<open>
  \<^verbatim>\<open>otelhttp.NewTransport(base)\<close>: start a client span in the request's context, inject
  the derived context into the headers with the global propagator, and hand the request to
  \<open>base\<close>. When \<open>base\<close> fails, the client span ends at once and the error is passed on.
  Otherwise the body of the response is wrapped: closing it ends the client span and then
  closes the body.
\<close>

definition otelhttp_NewTransport :: "round_tripper \<Rightarrow> round_tripper" where
  "otelhttp_NewTransport base r =
     go_bind (go_eval (tracer_Start (req_ctx r) ''HTTP GET'')) (\<lambda>(ctx, span).
     go_bind (go_eval (\<lambda>w. (prop_Inject (global_propagator w) ctx r, w))) (\<lambda>r'.
     go_bind (base r') (\<lambda>res.
     case res of
       Inl err \<Rightarrow> go_bind (act (span_End span)) (\<lambda>_. yield (Inl err))
     | Inr resp \<Rightarrow>
         yield (Inr (resp\<lparr>Body_Close := (\<lambda>w. Body_Close resp (span_End span w))\<rparr>)))))"

section \<open>The instruments and the handlers\<close>

definition httpRequestsCounter :: string where
  "httpRequestsCounter = ''http.server.requests_total''"

definition httpActiveRequests :: string where
  "httpActiveRequests = ''http.server.active_requests''"

definition workDurationHistogram :: string where
  "workDurationHistogram = ''app.work.duration''"

text \<open>
  \<^verbatim>\<open>
  func activeRequestsMiddleware(next http.Handler) http.Handler {
      return http.HandlerFunc(func(w http.ResponseWriter, r *http.Request) {
          ctx := r.Context()
          httpActiveRequests.Add(ctx, 1)
          defer httpActiveRequests.Add(ctx, -1)
          next.ServeHTTP(w, r)
      })
  }
  \<close>
\<close>

definition activeRequestsMiddleware :: "handler \<Rightarrow> handler" where
  "activeRequestsMiddleware next r =
     block [
       act (updown_Add httpActiveRequests 1),
       go_defer (effect (updown_Add httpActiveRequests (- 1))),
       go_invoke (next r)
     ]"

text \<open>
  \<^verbatim>\<open>
  func helloHandler(w http.ResponseWriter, r *http.Request) {
      ctx := r.Context()
      logger := global.Logger("helloHandler")
      _, span := tracer.Start(ctx, "helloHandler.work")
      defer span.End()
      httpRequestsCounter.Add(ctx, 1, metric.WithAttributes(attribute.String("http.route", "/hello")))
      emitLog(ctx, logger, otellog.SeverityInfo, "Received request for /hello")
      time.Sleep(50 * time.Millisecond)
      span.AddEvent("Finished sleeping")
      fmt.Fprintln(w, "Hello, OpenTelemetry!")
  }
  \<close>
\<close>

definition helloHandler :: handler where
  "helloHandler r =
     (let ctx = req_ctx r; logger = ''helloHandler'' in
      go_bind (go_eval (tracer_Start ctx ''helloHandler.work'')) (\<lambda>(_, span).
      block [
        go_defer (effect (span_End span)),
        act (counter_Add httpRequestsCounter 1 [(''http.route'', StringVal ''/hello'')]),
        go_invoke (emitLog ctx logger SeverityInfo ''Received request for /hello'' []),
        act (time_Sleep 50),
        act (span_AddEvent span ''Finished sleeping''),
        act (fmt_Fprintln ''Hello, OpenTelemetry!'')
      ]))"

text \<open>
  \<^verbatim>\<open>
  func workHandler(w http.ResponseWriter, r *http.Request) {
      ctx := r.Context()
      startTime := time.Now()
      logger := global.Logger("workHandler")
      _, span := tracer.Start(ctx, "workHandler.mainOperation")
      defer span.End()
      httpRequestsCounter.Add(ctx, 1, metric.WithAttributes(attribute.String("http.route", "/work")))
      emitLog(ctx, logger, otellog.SeverityInfo, "Starting complex work")
      time.Sleep(time.Duration(75+rand.Intn(50)) * time.Millisecond)
      span.AddEvent("Initial processing complete")
      emitLog(ctx, logger, otellog.SeverityInfo, "Calling downstream service")
      req, _ := http.NewRequestWithContext(ctx, "GET", "http://localhost:8080/downstream", nil)
      res, err := downstreamAPIHTTPClient.Do(req)
      if err != nil {
          http.Error(w, "Failed to call downstream service", http.StatusInternalServerError)
          emitLog(ctx, logger, otellog.SeverityError, "Downstream call failed", otellog.String("error", err.Error()))
          return
      }
      defer res.Body.Close()
      span.SetAttributes(attribute.Int("downstream.status_code", res.StatusCode))
      time.Sleep(time.Duration(50+rand.Intn(25)) * time.Millisecond)
      span.AddEvent("Final processing complete")
      duration := time.Since(startTime).Seconds()
      workDurationHistogram.Record(ctx, duration, metric.WithAttributes(attribute.Bool("success", true)))
      emitLog(ctx, logger, otellog.SeverityInfo, "Complex work finished")
      fmt.Fprintln(w, "Work complete!")
  }
  \<close>
  The first argument is the package variable \<^verbatim>\<open>downstreamAPIHTTPClient\<close>: the round
  tripper behind \<^verbatim>\<open>Do\<close>. The URL is kept as host and path; the duration recorded is
  in milliseconds.
\<close>

definition workHandler :: "round_tripper \<Rightarrow> handler" where
  "workHandler downstreamAPIHTTPClient r =
     (let ctx = req_ctx r; logger = ''workHandler'' in
      go_bind (go_eval time_Now) (\<lambda>startTime.
      go_bind (go_eval (tracer_Start ctx ''workHandler.mainOperation'')) (\<lambda>(_, span).
      go_bind (go_defer (effect (span_End span))) (\<lambda>_.
      go_bind (act (counter_Add httpRequestsCounter 1 [(''http.route'', StringVal ''/work'')])) (\<lambda>_.
      go_bind (go_invoke (emitLog ctx logger SeverityInfo ''Starting complex work'' [])) (\<lambda>_.
      go_bind (go_eval (rand_Intn 50)) (\<lambda>n.
      go_bind (act (time_Sleep (75 + n))) (\<lambda>_.
      go_bind (act (span_AddEvent span ''Initial processing complete'')) (\<lambda>_.
      go_bind (go_invoke (emitLog ctx logger SeverityInfo ''Calling downstream service'' [])) (\<lambda>_.
      let req = http_NewRequestWithContext ctx ''localhost:8080'' ''/downstream'' in
      go_bind (downstreamAPIHTTPClient req) (\<lambda>res.
      case res of
        Inl err \<Rightarrow>
          block [
            act (http_Error ''Failed to call downstream service'' StatusInternalServerError),
            go_invoke (emitLog ctx logger SeverityError ''Downstream call failed''
                         [(''error'', StringVal (error_msg err))]),
            go_return ()
          ]
      | Inr res \<Rightarrow>
          go_bind (go_defer (effect (Body_Close res))) (\<lambda>_.
          go_bind (act (span_SetAttributes span
                     [(''downstream.status_code'', IntVal (int (StatusCode res)))])) (\<lambda>_.
          go_bind (go_eval (rand_Intn 25)) (\<lambda>m.
          go_bind (act (time_Sleep (50 + m))) (\<lambda>_.
          go_bind (act (span_AddEvent span ''Final processing complete'')) (\<lambda>_.
          go_bind (go_eval time_Now) (\<lambda>now.
          let duration = now - startTime in
          block [
            act (histogram_Record workDurationHistogram duration [(''success'', BoolVal True)]),
            go_invoke (emitLog ctx logger SeverityInfo ''Complex work finished'' []),
            act (fmt_Fprintln ''Work complete!'')
          ])))))))))))))))))"

text \<open>
  \<^verbatim>\<open>
  func downstreamHandler(w http.ResponseWriter, r *http.Request) {
      ctx := r.Context()
      logger := global.Logger("downstreamHandler")
      _, span := tracer.Start(ctx, "downstreamHandler.databaseQuery")
      defer span.End()
      httpRequestsCounter.Add(ctx, 1, metric.WithAttributes(attribute.String("http.route", "/downstream")))
      emitLog(ctx, logger, otellog.SeverityInfo, "Downstream service received request")
      dbQueryTime := time.Duration(100+rand.Intn(150)) * time.Millisecond
      time.Sleep(dbQueryTime)
      span.SetAttributes(attribute.Float64("db.query.time_ms", float64(dbQueryTime.Milliseconds())))
      span.AddEvent("Database query finished")
      fmt.Fprintln(w, "Downstream work done.")
  }
  \<close>
\<close>

definition downstreamHandler :: handler where
  "downstreamHandler r =
     (let ctx = req_ctx r; logger = ''downstreamHandler'' in
      go_bind (go_eval (tracer_Start ctx ''downstreamHandler.databaseQuery'')) (\<lambda>(_, span).
      go_bind (go_defer (effect (span_End span))) (\<lambda>_.
      go_bind (act (counter_Add httpRequestsCounter 1 [(''http.route'', StringVal ''/downstream'')])) (\<lambda>_.
      go_bind (go_invoke (emitLog ctx logger SeverityInfo ''Downstream service received request'' [])) (\<lambda>_.
      go_bind (go_eval (rand_Intn 150)) (\<lambda>n.
      let dbQueryTime = 100 + n in
      block [
        act (time_Sleep dbQueryTime),
        act (span_SetAttributes span [(''db.query.time_ms'', MillisVal dbQueryTime)]),
        act (span_AddEvent span ''Database query finished''),
        act (fmt_Fprintln ''Downstream work done.'')
      ]))))))"

section \<open>The server and what listens on localhost:8080\<close>

text \<open>
  The routes of \<^verbatim>\<open>main\<close>:
  \<^verbatim>\<open>
  mux.Handle("/hello", otelhttp.NewHandler(http.HandlerFunc(helloHandler), "hello"))
  mux.Handle("/work", otelhttp.NewHandler(http.HandlerFunc(workHandler), "work"))
  mux.Handle("/downstream", otelhttp.NewHandler(http.HandlerFunc(downstreamHandler), "downstream"))
  server := &http.Server{Addr: ":8080", Handler: activeRequestsMiddleware(mux)}
  \<close>
  A path without a route gets the mux's 404.
\<close>

definition http_NotFound :: handler where
  "http_NotFound r = act (http_Error ''404 page not found'' 404)"

definition mux :: "round_tripper \<Rightarrow> handler" where
  "mux client r =
     (if url_path r = ''/hello'' then otelhttp_NewHandler helloHandler ''hello'' r
      else if url_path r = ''/work'' then otelhttp_NewHandler (workHandler client) ''work'' r
      else if url_path r = ''/downstream'' then otelhttp_NewHandler downstreamHandler ''downstream'' r
      else http_NotFound r)"

definition server :: "round_tripper \<Rightarrow> handler" where
  "server client = activeRequestsMiddleware (mux client)"

text \<open>
  What answers the outbound call is outside the program: the connection is refused, or a
  server answers with a status after some time, or (as deployed) the request comes back
  to this same server, whose own outbound calls in turn meet some peer. The request that
  arrives has the headers that were sent and a fresh server-side context. The status of an
  in-process answer is the one \<^verbatim>\<open>http.Error\<close> set, else 200; a handler that panics
  drops the connection.
\<close>

datatype peer = Refused error | Responds nat nat | SameProcess peer

definition response_status :: "event list \<Rightarrow> nat" where
  "response_status evs =
     (case [c. HttpError m c \<leftarrow> evs] of [] \<Rightarrow> 200 | c # _ \<Rightarrow> c)"

definition http_body :: "nat \<Rightarrow> response" where
  "http_body status = \<lparr>StatusCode = status, Body_Close = record_event BodyClose\<rparr>"

definition deliver :: "handler \<Rightarrow> request \<Rightarrow> (error + response, unit) go" where
  "deliver srv r fr =
     (let w = fworld fr in
      case go_call (srv (r\<lparr>req_ctx := None\<rparr>)) w of
        (Result _, w') \<Rightarrow> (Next (Inr (http_body (response_status (new_events w w')))), fr\<lparr>fworld := w'\<rparr>)
      | (Panic p, w') \<Rightarrow> (Next (Inl (Error ''EOF'')), fr\<lparr>fworld := w'\<rparr>)
      | (Exit n, w') \<Rightarrow> (Exited n, fr\<lparr>fworld := w'\<rparr>))"

definition send :: "request \<Rightarrow> (unit, unit) go" where
  "send r = act (record_event (HttpSend (url_host r) (url_path r) (traceparent r)))"

primrec http_DefaultTransport :: "peer \<Rightarrow> round_tripper" where
  "http_DefaultTransport (Refused e) =
     (\<lambda>r. go_bind (send r) (\<lambda>_. yield (Inl e)))"
| "http_DefaultTransport (Responds status d) =
     (\<lambda>r. go_bind (send r) (\<lambda>_. go_bind (act (time_Sleep d)) (\<lambda>_.
           yield (Inr (http_body status)))))"
| "http_DefaultTransport (SameProcess q) =
     (\<lambda>r. go_bind (send r) (\<lambda>_.
           deliver (server (otelhttp_NewTransport (http_DefaultTransport q))) r))"

text \<open>
  \<^verbatim>\<open>
  downstreamAPIHTTPClient = &http.Client{Transport: otelhttp.NewTransport(http.DefaultTransport)}
  \<close>
\<close>

definition downstreamAPIHTTPClient :: "peer \<Rightarrow> round_tripper" where
  "downstreamAPIHTTPClient p = otelhttp_NewTransport (http_DefaultTransport p)"

section \<open>Configuration, the SDK calls of start-up and shutdown\<close>

text \<open>
  \<^verbatim>\<open>
  serviceName  = os.Getenv("OTEL_SERVICE_NAME")
  otlpEndpoint = os.Getenv("OTEL_EXPORTER_OTLP_ENDPOINT")
  \<close>
  \<^verbatim>\<open>os.Getenv\<close> gives the empty string for a variable that is not set.
\<close>

type_synonym environ = "string \<rightharpoonup> string"

definition os_Getenv :: "environ \<Rightarrow> string \<Rightarrow> string" where
  "os_Getenv env k = (case env k of None \<Rightarrow> [] | Some v \<Rightarrow> v)"

definition serviceName :: "environ \<Rightarrow> string" where
  "serviceName env = os_Getenv env ''OTEL_SERVICE_NAME''"

definition otlpEndpoint :: "environ \<Rightarrow> string" where
  "otlpEndpoint env = os_Getenv env ''OTEL_EXPORTER_OTLP_ENDPOINT''"

text \<open>
  The constructors and destructors of the imported packages are not part of the program;
  their results are parameters of the model. A constructor gives \<^verbatim>\<open>nil\<close> or an error,
  possibly depending on its argument. A \<^verbatim>\<open>Close\<close> or \<^verbatim>\<open>Shutdown\<close> call returns
  \<^verbatim>\<open>nil\<close> or an error, or panics, and may depend on everything that happened before it
  (so a second call on a closed object may answer differently).
\<close>

datatype stage_result = Ret "error option" | Panics string

record sdk =
  resource_New :: "string \<Rightarrow> error option"
  grpc_NewClient :: "string \<Rightarrow> error option"
  otlptracegrpc_New :: "error option"
  otlpmetricgrpc_New :: "error option"
  otlploggrpc_New :: "error option"
  meter_Int64Counter :: "string \<Rightarrow> error option"
  meter_Int64UpDownCounter :: "string \<Rightarrow> error option"
  meter_Float64Histogram :: "string \<Rightarrow> error option"
  conn_Close :: "event list \<Rightarrow> stage_result"
  tracerProvider_Shutdown :: "event list \<Rightarrow> stage_result"
  meterProvider_Shutdown :: "event list \<Rightarrow> stage_result"
  loggerProvider_Shutdown :: "event list \<Rightarrow> stage_result"
  server_Shutdown :: "error option"

definition lib_call :: "string \<Rightarrow> string \<Rightarrow> 'a \<Rightarrow> ('a, 'r) go" where
  "lib_call name arg res = go_bind (act (record_event (LibCall name arg))) (\<lambda>_. yield res)"

definition stage :: "string \<Rightarrow> (event list \<Rightarrow> stage_result) \<Rightarrow> (error option, 'r) go" where
  "stage name f fr =
     (let w = fworld fr; fr' = fr\<lparr>fworld := record_event (LibCall name []) w\<rparr>
      in case f (events w) of
           Ret r \<Rightarrow> (Next r, fr')
         | Panics p \<Rightarrow> (Panicked p, fr'))"

text \<open>
  The closure \<open>initOtel\<close> returns:
  \<^verbatim>\<open>
  return func(shutdownCtx context.Context) error {
      cErr := conn.Close()
      tpErr := tracerProvider.Shutdown(shutdownCtx)
      mpErr := meterProvider.Shutdown(shutdownCtx)
      lpErr := loggerProvider.Shutdown(shutdownCtx)
      if cErr != nil { return cErr }
      if tpErr != nil { return tpErr }
      if mpErr != nil { return mpErr }
      if lpErr != nil { return lpErr }
      return nil
  }, nil
  \<close>
\<close>

definition shutdown :: "sdk \<Rightarrow> (error option, error option) go" where
  "shutdown L =
     go_bind (stage ''conn.Close'' (conn_Close L)) (\<lambda>cErr.
     go_bind (stage ''tracerProvider.Shutdown'' (tracerProvider_Shutdown L)) (\<lambda>tpErr.
     go_bind (stage ''meterProvider.Shutdown'' (meterProvider_Shutdown L)) (\<lambda>mpErr.
     go_bind (stage ''loggerProvider.Shutdown'' (loggerProvider_Shutdown L)) (\<lambda>lpErr.
     go_bind (block [
       go_if (cErr \<noteq> None) (go_return cErr),
       go_if (tpErr \<noteq> None) (go_return tpErr),
       go_if (mpErr \<noteq> None) (go_return mpErr),
       go_if (lpErr \<noteq> None) (go_return lpErr)
     ]) (\<lambda>_.
     yield None)))))"

text \<open>
  \<open>initOtel\<close> returns the pair (shutdown closure, error). \<open>check\<close> is
  \<^verbatim>\<open>if err != nil { return nil, fmt.Errorf("<msg>: %w", err) }\<close>.
\<close>

type_synonym init_result = "(error option, error option) go option \<times> error option"

definition check :: "error option \<Rightarrow> string \<Rightarrow> (unit, init_result) go" where
  "check err msg =
     (case err of Some e \<Rightarrow> go_return (None, Some (Wrap msg e)) | None \<Rightarrow> yield ())"

definition initOtel :: "sdk \<Rightarrow> environ \<Rightarrow> (init_result, init_result) go" where
  "initOtel L env =
     go_bind (lib_call ''resource.New'' (serviceName env) (resource_New L (serviceName env))) (\<lambda>err.
     go_bind (check err ''failed to create resource'') (\<lambda>_.
     go_bind (lib_call ''grpc.NewClient'' (otlpEndpoint env) (grpc_NewClient L (otlpEndpoint env))) (\<lambda>err.
     go_bind (check err ''failed to create gRPC connection to collector'') (\<lambda>_.
     go_bind (lib_call ''otlptracegrpc.New'' [] (otlptracegrpc_New L)) (\<lambda>err.
     go_bind (check err ''failed to create trace exporter'') (\<lambda>_.
     go_bind (act (record_event (SetGlobal ''TracerProvider''))) (\<lambda>_.
     go_bind (lib_call ''otlpmetricgrpc.New'' [] (otlpmetricgrpc_New L)) (\<lambda>err.
     go_bind (check err ''failed to create metric exporter'') (\<lambda>_.
     go_bind (act (record_event (SetGlobal ''MeterProvider''))) (\<lambda>_.
     go_bind (lib_call ''otlploggrpc.New'' [] (otlploggrpc_New L)) (\<lambda>err.
     go_bind (check err ''failed to create log exporter'') (\<lambda>_.
     go_bind (act (record_event (SetGlobal ''LoggerProvider''))) (\<lambda>_.
     go_bind (lib_call ''meter.Int64Counter'' httpRequestsCounter
                (meter_Int64Counter L httpRequestsCounter)) (\<lambda>err.
     go_bind (check err ''failed to create http_requests_total counter'') (\<lambda>_.
     go_bind (lib_call ''meter.Int64UpDownCounter'' httpActiveRequests
                (meter_Int64UpDownCounter L httpActiveRequests)) (\<lambda>err.
     go_bind (check err ''failed to create http_active_requests counter'') (\<lambda>_.
     go_bind (lib_call ''meter.Float64Histogram'' workDurationHistogram
                (meter_Float64Histogram L workDurationHistogram)) (\<lambda>err.
     go_bind (check err ''failed to create work_duration_seconds histogram'') (\<lambda>_.
     go_bind (act (record_event (SetGlobal ''downstreamAPIHTTPClient''))) (\<lambda>_.
     yield (Some (shutdown L), None)))))))))))))))))))))"

text \<open>
  \<^verbatim>\<open>
  func main() {
      ctx, stop := signal.NotifyContext(context.Background(), os.Interrupt)
      defer stop()
      shutdown, err := initOtel(ctx)
      if err != nil { log.Fatal(err) }
      defer func() {
          if err := shutdown(ctx); err != nil { log.Fatal("failed to shutdown OpenTelemetry: ", err) }
      }()
      ... mux, server ...
      go func() { if err := server.ListenAndServe(); err != http.ErrServerClosed { log.Fatalf(...) } }()
      log.Println("Server started on :8080")
      <-ctx.Done()
      shutdownCtx, cancel := context.WithTimeout(context.Background(), 5*time.Second)
      defer cancel()
      if err := server.Shutdown(shutdownCtx); err != nil { log.Fatalf("HTTP server shutdown failed: %v", err) }
      log.Println("Server gracefully shutdown")
  }
  \<close>
  \<^verbatim>\<open>log.Fatal\<close> prints and calls \<^verbatim>\<open>os.Exit(1)\<close>. The requests served between the start
  of the listener and the interrupt are not part of \<open>main\<close>'s own log here; \<^verbatim>\<open>stop\<close> and
  \<^verbatim>\<open>cancel\<close> leave no event.
\<close>

definition log_Fatal :: "string \<Rightarrow> (unit, 'r) go" where
  "log_Fatal msg = go_bind (act (record_event (LogFatal msg))) (\<lambda>_. os_Exit 1)"

definition main :: "sdk \<Rightarrow> environ \<Rightarrow> (unit, unit) go" where
  "main L env =
     go_bind (go_invoke (initOtel L env)) (\<lambda>(shutdown, err).
     go_bind (case err of Some e \<Rightarrow> log_Fatal (error_msg e) | None \<Rightarrow> yield ()) (\<lambda>_.
     go_bind (go_defer (go_call
       (case shutdown of
          None \<Rightarrow> go_panic ''invalid memory address or nil pointer dereference''
        | Some f \<Rightarrow>
            go_bind (go_invoke f) (\<lambda>err.
            case err of
              Some e \<Rightarrow> log_Fatal (''failed to shutdown OpenTelemetry: '' @ error_msg e)
            | None \<Rightarrow> yield ())))) (\<lambda>_.
     go_bind (act (record_event (ListenAndServe '':8080''))) (\<lambda>_.
     go_bind (act (record_event (LogPrintln ''Server started on :8080''))) (\<lambda>_.
     go_bind (act (record_event AwaitInterrupt)) (\<lambda>_.
     go_bind (lib_call ''server.Shutdown'' [] (server_Shutdown L)) (\<lambda>err.
     go_bind (case err of
                Some e \<Rightarrow> log_Fatal (''HTTP server shutdown failed: '' @ error_msg e)
              | None \<Rightarrow> yield ()) (\<lambda>_.
     act (record_event (LogPrintln ''Server gracefully shutdown''))))))))))"

section \<open>Reading the log\<close>

text \<open>The ids of the spans started and of the spans ended, in log order; the start time
  of a span; and whether every end in the log comes at or after the start of its span.\<close>

definition started :: "event list \<Rightarrow> nat list" where
  "started evs = [span_id sc. SpanStart name sc parent t \<leftarrow> evs]"

definition ended :: "event list \<Rightarrow> nat list" where
  "ended evs = [sid. SpanEnd sid t \<leftarrow> evs]"

definition start_time :: "nat \<Rightarrow> event list \<Rightarrow> nat option" where
  "start_time sid evs =
     (case [t. SpanStart name sc parent t \<leftarrow> evs, span_id sc = sid] of
        [] \<Rightarrow> None | t # _ \<Rightarrow> Some t)"

definition ends_after_start :: "event list \<Rightarrow> bool" where
  "ends_after_start evs =
     list_all (\<lambda>(sid, t). case start_time sid evs of None \<Rightarrow> False | Some t0 \<Rightarrow> t0 \<le> t)
       [(sid, t). SpanEnd sid t \<leftarrow> evs]"

text \<open>The span a name was started with (its context and its parent's span id).\<close>

definition span_named :: "string \<Rightarrow> event list \<Rightarrow> (span_context \<times> nat option) option" where
  "span_named name evs =
     (case [(sc, parent). SpanStart n sc parent t \<leftarrow> evs, n = name] of
        [] \<Rightarrow> None | x # _ \<Rightarrow> Some x)"

text \<open>What the receiving side extracts when the sender injected the span context \<open>sc\<close>
  into a request that carried no header before and both sides use the propagator \<open>p\<close>.\<close>

definition propagated :: "propagator \<Rightarrow> span_context \<Rightarrow> gocontext" where
  "propagated p sc = (case p of NoopPropagator \<Rightarrow> None | TraceContextPropagator \<Rightarrow> Some sc)"

text \<open>
  Span discipline of a log segment: no span id is started twice, none is ended twice, and
  the spans ended are exactly the spans started. \<open>handler_span_ok body w\<close> says that a run
  of \<open>body\<close> from \<open>w\<close> returns normally, only appends to the log, starts the span with the
  next free id once and ends it once, keeps the discipline for every span it (or anything
  it calls) starts, and ends no span before its start time.
\<close>

definition spans_closed :: "event list \<Rightarrow> bool" where
  "spans_closed evs \<longleftrightarrow>
     distinct (started evs) \<and> distinct (ended evs) \<and> set (ended evs) = set (started evs)"

definition handler_span_ok :: "(unit, unit) go \<Rightarrow> world \<Rightarrow> bool" where
  "handler_span_ok body w =
     (case go_call body w of
        (oc, w') \<Rightarrow>
          (let evs = new_events w w'
           in oc = Result () \<and> events w' = events w @ evs \<and>
              count_list (started evs) (next_id w) = 1 \<and>
              count_list (ended evs) (next_id w) = 1 \<and>
              spans_closed evs \<and> ends_after_start evs))"

text \<open>The status codes sent with \<^verbatim>\<open>http.Error\<close>, the severities of the records emitted and
  the histogram recordings, in log order.\<close>

definition error_responses :: "event list \<Rightarrow> nat list" where
  "error_responses evs = [c. HttpError m c \<leftarrow> evs]"

definition log_severities :: "event list \<Rightarrow> severity list" where
  "log_severities evs = [lr_severity r. LogEmit l c r \<leftarrow> evs]"

definition histogram_records :: "event list \<Rightarrow> (string \<times> attrs) list" where
  "histogram_records evs = [(n, kvs). HistogramRecord n v kvs \<leftarrow> evs]"

definition fatal_logs :: "event list \<Rightarrow> string list" where
  "fatal_logs evs = [m. LogFatal m \<leftarrow> evs]"

text \<open>The first non-nil error of a list of results, in order.\<close>

fun first_error :: "error option list \<Rightarrow> error option" where
  "first_error [] = None"
| "first_error (None # rs) = first_error rs"
| "first_error (Some e # rs) = Some e"

text \<open>
  The stages of initialization that can fail, in program order, each with the message its
  error is wrapped in and its result; and the first of them that failed, if any.
\<close>

definition init_stages :: "sdk \<Rightarrow> environ \<Rightarrow> (string \<times> error option) list" where
  "init_stages L env =
     [(''failed to create resource'', resource_New L (serviceName env)),
      (''failed to create gRPC connection to collector'', grpc_NewClient L (otlpEndpoint env)),
      (''failed to create trace exporter'', otlptracegrpc_New L),
      (''failed to create metric exporter'', otlpmetricgrpc_New L),
      (''failed to create log exporter'', otlploggrpc_New L),
      (''failed to create http_requests_total counter'', meter_Int64Counter L httpRequestsCounter),
      (''failed to create http_active_requests counter'',
         meter_Int64UpDownCounter L httpActiveRequests),
      (''failed to create work_duration_seconds histogram'',
         meter_Float64Histogram L workDurationHistogram)]"

fun first_failure :: "(string \<times> error option) list \<Rightarrow> (string \<times> error) option" where
  "first_failure [] = None"
| "first_failure ((msg, None) # xs) = first_failure xs"
| "first_failure ((msg, Some e) # xs) = Some (msg, e)"

text \<open>The constructor calls of \<open>initOtel\<close> that can fail, by name, in program order.\<close>

definition init_calls :: "string list" where
  "init_calls =
     [''resource.New'', ''grpc.NewClient'', ''otlptracegrpc.New'', ''otlpmetricgrpc.New'',
      ''otlploggrpc.New'', ''meter.Int64Counter'', ''meter.Int64UpDownCounter'',
      ''meter.Float64Histogram'']"

text \<open>The library calls in a log, by name.\<close>

definition lib_calls :: "event list \<Rightarrow> string list" where
  "lib_calls evs = [name. LibCall name arg \<leftarrow> evs]"

definition listens :: "event list \<Rightarrow> string list" where
  "listens evs = [addr. ListenAndServe addr \<leftarrow> evs]"

definition sends :: "event list \<Rightarrow> gocontext list" where
  "sends evs = [tp. HttpSend host path tp \<leftarrow> evs]"

text \<open>
  Concrete inputs for the examples below: the state of a freshly started process (the
  \<^verbatim>\<open>otel\<close> package holds its default, no-op propagator) and an SDK in which every
  call succeeds every time.
\<close>

definition process_start :: world where
  "process_start =
     \<lparr>clock = 0, next_id = 1, rng = (\<lambda>_. 0), rng_pos = 0,
      global_propagator = NoopPropagator, events = []\<rparr>"

definition healthy_sdk :: sdk where
  "healthy_sdk =
     \<lparr>resource_New = (\<lambda>_. None), grpc_NewClient = (\<lambda>_. None),
      otlptracegrpc_New = None, otlpmetricgrpc_New = None, otlploggrpc_New = None,
      meter_Int64Counter = (\<lambda>_. None), meter_Int64UpDownCounter = (\<lambda>_. None),
      meter_Float64Histogram = (\<lambda>_. None),
      conn_Close = (\<lambda>_. Ret None), tracerProvider_Shutdown = (\<lambda>_. Ret None),
      meterProvider_Shutdown = (\<lambda>_. Ret None), loggerProvider_Shutdown = (\<lambda>_. Ret None),
      server_Shutdown = None\<rparr>"

text \<open>The value of the active-requests instrument: the sum of what was added to it.\<close>

definition gauge_adds :: "event list \<Rightarrow> int list" where
  "gauge_adds evs = [n. UpDownAdd name n \<leftarrow> evs, name = httpActiveRequests]"

definition gauge :: "event list \<Rightarrow> int" where
  "gauge evs = sum_list (gauge_adds evs)"

section \<open>Concurrent requests\<close>

text \<open>
  The server runs each request in its own goroutine. What one request adds to the log is
  the trace of its run through the middleware; a schedule interleaves the traces of the
  requests in flight, one event at a time: entry \<open>i\<close> of the schedule lets request \<open>i\<close>
  perform its next event (nothing happens when it has none left). The state of the
  system is the position reached in every trace, and the common log.
\<close>

definition request_trace :: "handler \<Rightarrow> request \<Rightarrow> world \<Rightarrow> event list" where
  "request_trace next r w = new_events w (snd (go_call (activeRequestsMiddleware next r) w))"

definition sched_step :: "event list list \<Rightarrow> nat \<Rightarrow> nat list \<times> event list \<Rightarrow> nat list \<times> event list" where
  "sched_step pool i s =
     (case s of (ps, log) \<Rightarrow>
        if i < length pool \<and> i < length ps \<and> ps ! i < length (pool ! i)
        then (ps[i := Suc (ps ! i)], log @ [pool ! i ! (ps ! i)])
        else (ps, log))"

definition run_schedule :: "event list list \<Rightarrow> nat list \<Rightarrow> nat list \<times> event list" where
  "run_schedule pool sched = fold (sched_step pool) sched (replicate (length pool) 0, [])"

text \<open>A request has started once its first event has happened, and finished once its
  last one has.\<close>

definition started_requests :: "nat list \<Rightarrow> nat" where
  "started_requests ps = length (filter (\<lambda>p. 0 < p) ps)"

definition finished_requests :: "event list list \<Rightarrow> nat list \<Rightarrow> nat" where
  "finished_requests pool ps = length (filter (\<lambda>(tr, p). length tr \<le> p) (zip pool ps))"

text \<open>
  What the middleware needs of the handler it wraps: run after the middleware's increment,
  the handler returns or panics (it does not end the process), only appends to the log,
  and adds nothing to the active-requests instrument itself.
\<close>

definition handler_quiet :: "handler \<Rightarrow> request \<Rightarrow> world \<Rightarrow> bool" where
  "handler_quiet next r w =
     (case go_call (next r) (updown_Add httpActiveRequests 1 w) of
        (oc, w') \<Rightarrow>
          (case oc of Exit n \<Rightarrow> False | _ \<Rightarrow> True) \<and>
          take (Suc (length (events w))) (events w') = events w @ [UpDownAdd httpActiveRequests 1] \<and>
          gauge_adds (drop (Suc (length (events w))) (events w')) = [])"

text \<open>For the examples: a handler that panics at once, and a request for \<^verbatim>\<open>/hello\<close>.\<close>

definition panicHandler :: handler where
  "panicHandler r = go_panic ''runtime error''"

definition hello_request :: request where
  "hello_request =
     \<lparr>url_host = ''localhost:8080'', url_path = ''/hello'', traceparent = None, req_ctx = None\<rparr>"

section \<open>Properties\<close>

subsection \<open>emitLog\<close>

lemma emitLog_run:
  "go_call (emitLog ctx logger severity body kvs) w =
     (Result (),
      record_event (LogEmit logger ctx
        \<lparr>lr_timestamp = clock w, lr_severity = severity, lr_body = body, lr_attributes = kvs\<rparr>) w)"
  by (simp add: emitLog_def go_call_def go_bind_def go_eval_def time_Now_def act_def
      logger_Emit_def empty_record_def SetTimestamp_def SetSeverity_def SetBody_def
      AddAttributes_def Let_def)

text \<open>
  Claim C10. Every call of \<open>emitLog\<close> returns normally and adds exactly one event to the
  log, the emission of one record on the given logger and context. The record carries
  the severity and the body passed in, the clock reading of the call as its timestamp,
  and exactly the attributes passed in: none when the call gives none.
\<close>

theorem emitLog_emits_one_record:
  "go_call (emitLog ctx logger severity body kvs) w =
     (Result (),
      w\<lparr>events := events w @
            [LogEmit logger ctx \<lparr>lr_timestamp = clock w, lr_severity = severity,
                                 lr_body = body, lr_attributes = kvs\<rparr>]\<rparr>)"
  by (simp add: emitLog_run record_event_def)

subsection \<open>Runs of the handlers\<close>

text \<open>
  What each function adds to the state, computed once and reused below. The wrappers are
  characterised for an arbitrary inner handler; the handlers and the instrumented client
  by the exact events of one run.
\<close>

lemmas go_defs = go_bind_def yield_def go_return_def act_def go_eval_def go_defer_def
  effect_def go_if_def
lemmas lib_defs = time_Now_def time_Sleep_def rand_Intn_def tracer_Start_def span_End_def
  span_AddEvent_def span_SetAttributes_def counter_Add_def updown_Add_def histogram_Record_def
  fmt_Fprintln_def http_Error_def record_event_def

lemma emitLog_invoke:
  "go_invoke (emitLog ctx logger severity body kvs) fr =
     (Next (), fr\<lparr>fworld := record_event (LogEmit logger ctx
        \<lparr>lr_timestamp = clock (fworld fr), lr_severity = severity, lr_body = body,
         lr_attributes = kvs\<rparr>) (fworld fr)\<rparr>)"
  by (simp add: go_invoke_def emitLog_run)

lemma middleware_run:
  "go_call (activeRequestsMiddleware next r) w =
     (case go_call (next r) (updown_Add httpActiveRequests 1 w) of
        (Exit n, w') \<Rightarrow> (Exit n, w')
      | (oc, w') \<Rightarrow> (oc, updown_Add httpActiveRequests (- 1) w'))"
  apply (subst go_call_def)
  apply (simp add: activeRequestsMiddleware_def go_defs go_invoke_def split: prod.splits outcome.splits)
  done

lemma otelhttp_handler_run:
  "go_call (otelhttp_NewHandler h operation r) w =
     (case tracer_Start (prop_Extract (global_propagator w) (req_ctx r) r) operation w of
        ((ctx, span), w1) \<Rightarrow>
          (case go_call (h (r\<lparr>req_ctx := ctx\<rparr>)) w1 of
             (Exit n, w2) \<Rightarrow> (Exit n, w2)
           | (oc, w2) \<Rightarrow> (oc, span_End span w2)))"
  apply (subst go_call_def)
  apply (simp add: otelhttp_NewHandler_def go_defs go_invoke_def split: prod.splits outcome.splits)
  done

lemma span_id_new [simp]: "span_id (new_span_context ctx n) = n"
  by (simp add: new_span_context_def)

lemma hello_run:
  "go_call (helloHandler r) w =
     (Result (),
      w\<lparr>next_id := next_id w + 2, clock := clock w + 50,
        events := events w @
          [SpanStart ''helloHandler.work'' (new_span_context (req_ctx r) (next_id w))
             (map_option span_id (req_ctx r)) (clock w),
           CounterAdd httpRequestsCounter 1 [(''http.route'', StringVal ''/hello'')],
           LogEmit ''helloHandler'' (req_ctx r)
             \<lparr>lr_timestamp = clock w, lr_severity = SeverityInfo,
              lr_body = ''Received request for /hello'', lr_attributes = []\<rparr>,
           SpanAddEvent (next_id w) ''Finished sleeping'',
           ResponseWrite ''Hello, OpenTelemetry!'',
           SpanEnd (next_id w) (clock w + 50)]\<rparr>)"
  apply (subst go_call_def)
  apply (simp add: helloHandler_def go_defs lib_defs emitLog_invoke Let_def)
  done

lemma downstream_run:
  "go_call (downstreamHandler r) w =
     (Result (),
      w\<lparr>next_id := next_id w + 2, rng_pos := Suc (rng_pos w),
        clock := clock w + (100 + rng w (rng_pos w) mod 150),
        events := events w @
          [SpanStart ''downstreamHandler.databaseQuery'' (new_span_context (req_ctx r) (next_id w))
             (map_option span_id (req_ctx r)) (clock w),
           CounterAdd httpRequestsCounter 1 [(''http.route'', StringVal ''/downstream'')],
           LogEmit ''downstreamHandler'' (req_ctx r)
             \<lparr>lr_timestamp = clock w, lr_severity = SeverityInfo,
              lr_body = ''Downstream service received request'', lr_attributes = []\<rparr>,
           SpanSetAttributes (next_id w)
             [(''db.query.time_ms'', MillisVal (100 + rng w (rng_pos w) mod 150))],
           SpanAddEvent (next_id w) ''Database query finished'',
           ResponseWrite ''Downstream work done.'',
           SpanEnd (next_id w) (clock w + (100 + rng w (rng_pos w) mod 150))]\<rparr>)"
  apply (subst go_call_def)
  apply (simp add: downstreamHandler_def go_defs lib_defs emitLog_invoke Let_def)
  done

lemma server_downstream_run:
  "url_path r = ''/downstream'' \<Longrightarrow>
   go_call (server c r) w =
     (let n = next_id w; t = clock w; d = 100 + rng w (rng_pos w) mod 150;
          remote = prop_Extract (global_propagator w) (req_ctx r) r;
          srv = new_span_context remote n
      in (Result (),
          w\<lparr>next_id := n + 4, rng_pos := Suc (rng_pos w), clock := t + d,
            events := events w @
              [UpDownAdd httpActiveRequests 1,
               SpanStart ''downstream'' srv (map_option span_id remote) t,
               SpanStart ''downstreamHandler.databaseQuery''
                 (new_span_context (Some srv) (n + 2)) (Some n) t,
               CounterAdd httpRequestsCounter 1 [(''http.route'', StringVal ''/downstream'')],
               LogEmit ''downstreamHandler'' (Some srv)
                 \<lparr>lr_timestamp = t, lr_severity = SeverityInfo,
                  lr_body = ''Downstream service received request'', lr_attributes = []\<rparr>,
               SpanSetAttributes (n + 2) [(''db.query.time_ms'', MillisVal d)],
               SpanAddEvent (n + 2) ''Database query finished'',
               ResponseWrite ''Downstream work done.'',
               SpanEnd (n + 2) (t + d),
               SpanEnd n (t + d),
               UpDownAdd httpActiveRequests (- 1)]\<rparr>))"
  by (simp add: server_def middleware_run mux_def otelhttp_handler_run downstream_run lib_defs Let_def)

lemma prop_Inject_fields [simp]:
  "url_host (prop_Inject p ctx r) = url_host r"
  "url_path (prop_Inject p ctx r) = url_path r"
  "req_ctx (prop_Inject p ctx r) = req_ctx r"
  by (simp_all add: prop_Inject_def split: propagator.splits option.splits)

lemma client_refused_run:
  "downstreamAPIHTTPClient (Refused e) r fr =
     (let w = fworld fr; n = next_id w; t = clock w;
          cli = new_span_context (req_ctx r) n
      in (Next (Inl e),
          fr\<lparr>fworld := w\<lparr>next_id := n + 2,
            events := events w @
              [SpanStart ''HTTP GET'' cli (map_option span_id (req_ctx r)) t,
               HttpSend (url_host r) (url_path r)
                 (traceparent (prop_Inject (global_propagator w) (Some cli) r)),
               SpanEnd n t]\<rparr>\<rparr>))"
  by (simp add: downstreamAPIHTTPClient_def otelhttp_NewTransport_def send_def go_defs lib_defs Let_def)

lemma client_responds_run:
  "downstreamAPIHTTPClient (Responds status d) r fr =
     (let w = fworld fr; n = next_id w; t = clock w;
          cli = new_span_context (req_ctx r) n
      in (Next (Inr \<lparr>StatusCode = status,
                       Body_Close = (\<lambda>w'. record_event BodyClose (span_End cli w'))\<rparr>),
          fr\<lparr>fworld := w\<lparr>next_id := n + 2, clock := t + d,
            events := events w @
              [SpanStart ''HTTP GET'' cli (map_option span_id (req_ctx r)) t,
               HttpSend (url_host r) (url_path r)
                 (traceparent (prop_Inject (global_propagator w) (Some cli) r))]\<rparr>\<rparr>))"
  by (simp add: downstreamAPIHTTPClient_def otelhttp_NewTransport_def send_def http_body_def
      go_defs lib_defs Let_def)

lemma traceparent_inject:
  "traceparent r = None \<Longrightarrow> traceparent (prop_Inject p (Some sc) r) = propagated p sc"
  by (simp add: prop_Inject_def propagated_def split: propagator.splits)

lemma extract_injected:
  "prop_Extract p None ((prop_Inject p (Some sc) r)\<lparr>req_ctx := None\<rparr>) = propagated p sc"
  by (simp add: prop_Extract_def prop_Inject_def propagated_def split: propagator.splits)

lemma client_sameprocess_run:
  "url_path r = ''/downstream'' \<Longrightarrow>
   downstreamAPIHTTPClient (SameProcess q) r fr =
     (let w = fworld fr; n = next_id w; t = clock w; d = 100 + rng w (rng_pos w) mod 150;
          p = global_propagator w;
          cli = new_span_context (req_ctx r) n;
          remote = propagated p cli;
          n2 = Suc (Suc n); n4 = Suc (Suc n2);
          srv = new_span_context remote n2
      in (Next (Inr \<lparr>StatusCode = 200,
                       Body_Close = (\<lambda>w'. record_event BodyClose (span_End cli w'))\<rparr>),
          fr\<lparr>fworld := w\<lparr>next_id := n + 6, rng_pos := Suc (rng_pos w), clock := t + d,
            events := events w @
              [SpanStart ''HTTP GET'' cli (map_option span_id (req_ctx r)) t,
               HttpSend (url_host r) ''/downstream'' (traceparent (prop_Inject p (Some cli) r)),
               UpDownAdd httpActiveRequests 1,
               SpanStart ''downstream'' srv (map_option span_id remote) t,
               SpanStart ''downstreamHandler.databaseQuery''
                 (new_span_context (Some srv) n4) (Some n2) t,
               CounterAdd httpRequestsCounter 1 [(''http.route'', StringVal ''/downstream'')],
               LogEmit ''downstreamHandler'' (Some srv)
                 \<lparr>lr_timestamp = t, lr_severity = SeverityInfo,
                  lr_body = ''Downstream service received request'', lr_attributes = []\<rparr>,
               SpanSetAttributes n4 [(''db.query.time_ms'', MillisVal d)],
               SpanAddEvent n4 ''Database query finished'',
               ResponseWrite ''Downstream work done.'',
               SpanEnd n4 (t + d),
               SpanEnd n2 (t + d),
               UpDownAdd httpActiveRequests (- 1)]\<rparr>\<rparr>))"
  by (simp add: downstreamAPIHTTPClient_def otelhttp_NewTransport_def send_def deliver_def
      http_body_def
      server_downstream_run extract_injected
      new_events_def response_status_def go_defs lib_defs Let_def)

lemmas work_simps = workHandler_def http_NewRequestWithContext_def StatusInternalServerError_def
  go_defs lib_defs emitLog_invoke Let_def

lemma work_refused_run:
  "go_call (workHandler (downstreamAPIHTTPClient (Refused e)) r) w =
     (let n = next_id w; n2 = Suc (Suc n); t = clock w; ctx = req_ctx r;
          t1 = t + (75 + rng w (rng_pos w) mod 50);
          cli = new_span_context ctx n2
      in (Result (),
          w\<lparr>rng_pos := Suc (rng_pos w), clock := t1, next_id := n + 4,
            events := events w @
              [SpanStart ''workHandler.mainOperation'' (new_span_context ctx n)
                 (map_option span_id ctx) t,
               CounterAdd httpRequestsCounter 1 [(''http.route'', StringVal ''/work'')],
               LogEmit ''workHandler'' ctx
                 \<lparr>lr_timestamp = t, lr_severity = SeverityInfo,
                  lr_body = ''Starting complex work'', lr_attributes = []\<rparr>,
               SpanAddEvent n ''Initial processing complete'',
               LogEmit ''workHandler'' ctx
                 \<lparr>lr_timestamp = t1, lr_severity = SeverityInfo,
                  lr_body = ''Calling downstream service'', lr_attributes = []\<rparr>,
               SpanStart ''HTTP GET'' cli (map_option span_id ctx) t1,
               HttpSend ''localhost:8080'' ''/downstream''
                 (propagated (global_propagator w) cli),
               SpanEnd n2 t1,
               HttpError ''Failed to call downstream service'' 500,
               LogEmit ''workHandler'' ctx
                 \<lparr>lr_timestamp = t1, lr_severity = SeverityError,
                  lr_body = ''Downstream call failed'',
                  lr_attributes = [(''error'', StringVal (error_msg e))]\<rparr>,
               SpanEnd n t1]\<rparr>))"
  apply (subst go_call_def)
  apply (simp add: work_simps client_refused_run traceparent_inject)
  done

lemma work_responds_run:
  "go_call (workHandler (downstreamAPIHTTPClient (Responds status d)) r) w =
     (let n = next_id w; n2 = Suc (Suc n); t = clock w; ctx = req_ctx r;
          t1 = t + (75 + rng w (rng_pos w) mod 50);
          cli = new_span_context ctx n2;
          t2 = t1 + d;
          t3 = t2 + (50 + rng w (Suc (rng_pos w)) mod 25)
      in (Result (),
          w\<lparr>rng_pos := Suc (Suc (rng_pos w)), clock := t3, next_id := n + 4,
            events := events w @
              [SpanStart ''workHandler.mainOperation'' (new_span_context ctx n)
                 (map_option span_id ctx) t,
               CounterAdd httpRequestsCounter 1 [(''http.route'', StringVal ''/work'')],
               LogEmit ''workHandler'' ctx
                 \<lparr>lr_timestamp = t, lr_severity = SeverityInfo,
                  lr_body = ''Starting complex work'', lr_attributes = []\<rparr>,
               SpanAddEvent n ''Initial processing complete'',
               LogEmit ''workHandler'' ctx
                 \<lparr>lr_timestamp = t1, lr_severity = SeverityInfo,
                  lr_body = ''Calling downstream service'', lr_attributes = []\<rparr>,
               SpanStart ''HTTP GET'' cli (map_option span_id ctx) t1,
               HttpSend ''localhost:8080'' ''/downstream''
                 (propagated (global_propagator w) cli),
               SpanSetAttributes n [(''downstream.status_code'', IntVal (int status))],
               SpanAddEvent n ''Final processing complete'',
               HistogramRecord workDurationHistogram (t3 - t) [(''success'', BoolVal True)],
               LogEmit ''workHandler'' ctx
                 \<lparr>lr_timestamp = t3, lr_severity = SeverityInfo,
                  lr_body = ''Complex work finished'', lr_attributes = []\<rparr>,
               ResponseWrite ''Work complete!'',
               SpanEnd n2 t3,
               BodyClose,
               SpanEnd n t3]\<rparr>))"
  apply (subst go_call_def)
  apply (simp add: work_simps client_responds_run traceparent_inject)
  done

lemma work_sameprocess_run:
  "go_call (workHandler (downstreamAPIHTTPClient (SameProcess q)) r) w =
     (let n = next_id w; n2 = Suc (Suc n); t = clock w; ctx = req_ctx r;
          t1 = t + (75 + rng w (rng_pos w) mod 50);
          cli = new_span_context ctx n2;
          n4 = Suc (Suc n2); n6 = Suc (Suc n4);
          dq = 100 + rng w (Suc (rng_pos w)) mod 150;
          srv = new_span_context (propagated (global_propagator w) cli) n4;
          t2 = t1 + dq;
          t3 = t2 + (50 + rng w (Suc (Suc (rng_pos w))) mod 25)
      in (Result (),
          w\<lparr>rng_pos := Suc (Suc (Suc (rng_pos w))), clock := t3, next_id := n + 8,
            events := events w @
              [SpanStart ''workHandler.mainOperation'' (new_span_context ctx n)
                 (map_option span_id ctx) t,
               CounterAdd httpRequestsCounter 1 [(''http.route'', StringVal ''/work'')],
               LogEmit ''workHandler'' ctx
                 \<lparr>lr_timestamp = t, lr_severity = SeverityInfo,
                  lr_body = ''Starting complex work'', lr_attributes = []\<rparr>,
               SpanAddEvent n ''Initial processing complete'',
               LogEmit ''workHandler'' ctx
                 \<lparr>lr_timestamp = t1, lr_severity = SeverityInfo,
                  lr_body = ''Calling downstream service'', lr_attributes = []\<rparr>,
               SpanStart ''HTTP GET'' cli (map_option span_id ctx) t1,
               HttpSend ''localhost:8080'' ''/downstream''
                 (propagated (global_propagator w) cli),
               UpDownAdd httpActiveRequests 1,
               SpanStart ''downstream'' srv
                 (map_option span_id (propagated (global_propagator w) cli)) t1,
               SpanStart ''downstreamHandler.databaseQuery''
                 (new_span_context (Some srv) n6) (Some n4) t1,
               CounterAdd httpRequestsCounter 1 [(''http.route'', StringVal ''/downstream'')],
               LogEmit ''downstreamHandler'' (Some srv)
                 \<lparr>lr_timestamp = t1, lr_severity = SeverityInfo,
                  lr_body = ''Downstream service received request'', lr_attributes = []\<rparr>,
               SpanSetAttributes n6 [(''db.query.time_ms'', MillisVal dq)],
               SpanAddEvent n6 ''Database query finished'',
               ResponseWrite ''Downstream work done.'',
               SpanEnd n6 t2,
               SpanEnd n4 t2,
               UpDownAdd httpActiveRequests (- 1),
               SpanSetAttributes n [(''downstream.status_code'', IntVal (int 200))],
               SpanAddEvent n ''Final processing complete'',
               HistogramRecord workDurationHistogram (t3 - t) [(''success'', BoolVal True)],
               LogEmit ''workHandler'' ctx
                 \<lparr>lr_timestamp = t3, lr_severity = SeverityInfo,
                  lr_body = ''Complex work finished'', lr_attributes = []\<rparr>,
               ResponseWrite ''Work complete!'',
               SpanEnd n2 t3,
               BodyClose,
               SpanEnd n t3]\<rparr>))"
  apply (subst go_call_def)
  apply (simp add: work_simps client_sameprocess_run traceparent_inject)
  done

subsection \<open>Spans of the handlers\<close>

lemmas obs_defs = handler_span_ok_def spans_closed_def started_def ended_def
  ends_after_start_def start_time_def new_events_def

text \<open>
  Claim C2. For every request, every state and every peer behind the outbound call, each
  of the three handlers returns normally, starts its span once and ends it once (the
  deferred \<^verbatim>\<open>span.End()\<close> runs on the early return of \<open>workHandler\<close> as on the normal
  end), leaves no span started during the run open or ended twice, and ends every span at
  or after its start time.
\<close>

theorem handlers_end_their_span:
  "handler_span_ok (helloHandler r) w \<and>
   handler_span_ok (workHandler (downstreamAPIHTTPClient p) r) w \<and>
   handler_span_ok (downstreamHandler r) w"
proof (intro conjI)
  show "handler_span_ok (helloHandler r) w"
    by (simp add: obs_defs hello_run)
  show "handler_span_ok (downstreamHandler r) w"
    by (simp add: obs_defs downstream_run)
  show "handler_span_ok (workHandler (downstreamAPIHTTPClient p) r) w"
  proof (cases p)
    case (Refused e)
    then show ?thesis by (simp add: obs_defs work_refused_run Let_def insert_commute)
  next
    case (Responds status d)
    then show ?thesis by (simp add: obs_defs work_responds_run Let_def insert_commute)
  next
    case (SameProcess q)
    then show ?thesis by (simp add: obs_defs work_sameprocess_run Let_def insert_commute)
  qed
qed

subsection \<open>A failing downstream call\<close>

text \<open>
  Claim C6. When the outbound call of \<open>workHandler\<close> fails (connection refused), the
  handler answers with status 500, emits one record of severity error after its two
  informational ones, records nothing in the histogram, ends its span once, and returns
  normally: no panic, no exit, no fatal log.
\<close>

theorem downstream_failure_is_reported:
  "(case go_call (workHandler (downstreamAPIHTTPClient (Refused e)) r) w of
      (oc, w') \<Rightarrow>
        (let evs = new_events w w'
         in oc = Result () \<and>
            error_responses evs = [StatusInternalServerError] \<and>
            500 \<le> StatusInternalServerError \<and> StatusInternalServerError < 600 \<and>
            log_severities evs = [SeverityInfo, SeverityInfo, SeverityError] \<and>
            histogram_records evs = [] \<and>
            count_list (ended evs) (next_id w) = 1 \<and>
            fatal_logs evs = []))"
  by (simp add: work_refused_run new_events_def error_responses_def log_severities_def
      histogram_records_def ended_def fatal_logs_def StatusInternalServerError_def Let_def)

subsection \<open>Shutdown\<close>

lemma shutdown_run:
  assumes "conn_Close L (events w) = Ret c"
    and "tracerProvider_Shutdown L (events w @ [LibCall ''conn.Close'' []]) = Ret t"
    and "meterProvider_Shutdown L
           (events w @ [LibCall ''conn.Close'' [], LibCall ''tracerProvider.Shutdown'' []]) = Ret m"
    and "loggerProvider_Shutdown L
           (events w @ [LibCall ''conn.Close'' [], LibCall ''tracerProvider.Shutdown'' [],
                        LibCall ''meterProvider.Shutdown'' []]) = Ret l"
  shows "go_call (shutdown L) w =
           (Result (first_error [c, t, m, l]),
            w\<lparr>events := events w @
               [LibCall ''conn.Close'' [], LibCall ''tracerProvider.Shutdown'' [],
                LibCall ''meterProvider.Shutdown'' [], LibCall ''loggerProvider.Shutdown'' []]\<rparr>)"
  using assms
  apply (subst go_call_def)
  apply (cases c; cases t; cases m; cases l)
  apply (simp_all add: shutdown_def stage_def go_defs record_event_def Let_def)
  done

text \<open>
  Claim C1, as the program has it. The closure closes the connection to the collector
  first: whatever the SDK calls answer, the first thing a shutdown does is
  \<^verbatim>\<open>conn.Close()\<close>, and when all four calls return, the three provider shutdowns
  (which flush through that connection) come after it, in the order trace, metric, log.
  The claim asks for the opposite order, the connection last.
\<close>

theorem shutdown_closes_channel_first:
  "take 1 (new_events w (snd (go_call (shutdown L) w))) = [LibCall ''conn.Close'' []] \<and>
   new_events process_start (snd (go_call (shutdown healthy_sdk) process_start)) =
     [LibCall ''conn.Close'' [], LibCall ''tracerProvider.Shutdown'' [],
      LibCall ''meterProvider.Shutdown'' [], LibCall ''loggerProvider.Shutdown'' []]"
proof
  let ?h1 = "events w @ [LibCall ''conn.Close'' []]"
  let ?h2 = "?h1 @ [LibCall ''tracerProvider.Shutdown'' []]"
  let ?h3 = "?h2 @ [LibCall ''meterProvider.Shutdown'' []]"
  note defs = shutdown_def stage_def go_bind_def record_event_def Let_def new_events_def
  show "take 1 (new_events w (snd (go_call (shutdown L) w))) = [LibCall ''conn.Close'' []]"
  proof (cases "conn_Close L (events w)")
    case (Panics p)
    then show ?thesis by (subst go_call_def) (simp add: defs)
  next
    case c: (Ret c)
    show ?thesis
    proof (cases "tracerProvider_Shutdown L ?h1")
      case (Panics p)
      with c show ?thesis by (subst go_call_def) (simp add: defs)
    next
      case t: (Ret t)
      show ?thesis
      proof (cases "meterProvider_Shutdown L ?h2")
        case (Panics p)
        with c t show ?thesis by (subst go_call_def) (simp add: defs)
      next
        case m: (Ret m)
        show ?thesis
        proof (cases "loggerProvider_Shutdown L ?h3")
          case (Panics p)
          with c t m show ?thesis by (subst go_call_def) (simp add: defs)
        next
          case l: (Ret l)
          with c t m show ?thesis by (simp add: shutdown_run new_events_def)
        qed
      qed
    qed
  qed
  have "go_call (shutdown healthy_sdk) process_start =
          (Result (first_error [None, None, None, None]),
           process_start\<lparr>events := events process_start @
             [LibCall ''conn.Close'' [], LibCall ''tracerProvider.Shutdown'' [],
              LibCall ''meterProvider.Shutdown'' [], LibCall ''loggerProvider.Shutdown'' []]\<rparr>)"
    by (rule shutdown_run) (simp_all add: healthy_sdk_def)
  then show "new_events process_start (snd (go_call (shutdown healthy_sdk) process_start)) =
     [LibCall ''conn.Close'' [], LibCall ''tracerProvider.Shutdown'' [],
      LibCall ''meterProvider.Shutdown'' [], LibCall ''loggerProvider.Shutdown'' []]"
    by (simp add: new_events_def)
qed

text \<open>
  Claim C3. When each of the four calls returns (with or without an error), all four are
  made, in program order, whatever the earlier ones returned, and the closure returns the
  first non-nil error among the four results, or nil when there is none.
\<close>

theorem shutdown_runs_every_stage:
  assumes "conn_Close L (events w) = Ret c"
    and "tracerProvider_Shutdown L (events w @ [LibCall ''conn.Close'' []]) = Ret t"
    and "meterProvider_Shutdown L
           (events w @ [LibCall ''conn.Close'' [], LibCall ''tracerProvider.Shutdown'' []]) = Ret m"
    and "loggerProvider_Shutdown L
           (events w @ [LibCall ''conn.Close'' [], LibCall ''tracerProvider.Shutdown'' [],
                        LibCall ''meterProvider.Shutdown'' []]) = Ret l"
  shows "go_call (shutdown L) w =
           (Result (first_error [c, t, m, l]),
            w\<lparr>events := events w @
               [LibCall ''conn.Close'' [], LibCall ''tracerProvider.Shutdown'' [],
                LibCall ''meterProvider.Shutdown'' [], LibCall ''loggerProvider.Shutdown'' []]\<rparr>)"
  using assms by (rule shutdown_run)

theorem shutdown_runs_every_stage_witness:
  "go_call (shutdown (healthy_sdk\<lparr>
       tracerProvider_Shutdown := (\<lambda>_. Ret (Some (Error ''context canceled''))),
       loggerProvider_Shutdown := (\<lambda>_. Ret (Some (Error ''exporter stopped'')))\<rparr>)) process_start =
     (Result (Some (Error ''context canceled'')),
      process_start\<lparr>events :=
        [LibCall ''conn.Close'' [], LibCall ''tracerProvider.Shutdown'' [],
         LibCall ''meterProvider.Shutdown'' [], LibCall ''loggerProvider.Shutdown'' []]\<rparr>)"
  using shutdown_runs_every_stage [of
      "healthy_sdk\<lparr>
         tracerProvider_Shutdown := (\<lambda>_. Ret (Some (Error ''context canceled''))),
         loggerProvider_Shutdown := (\<lambda>_. Ret (Some (Error ''exporter stopped'')))\<rparr>"
      process_start None "Some (Error ''context canceled'')" None
      "Some (Error ''exporter stopped'')"]
  by (simp add: healthy_sdk_def process_start_def)

subsection \<open>Initialization\<close>

text \<open>
  The result of \<open>initOtel\<close> is decided by the first constructor that fails; its log
  only grows, holds constructor calls and registrations only, and stops right after the
  call that failed. When initialization fails, \<open>main\<close> logs the error and exits.
\<close>

lemma initOtel_result:
  "fst (go_call (initOtel L env) w) =
     Result (case first_failure (init_stages L env) of
               None \<Rightarrow> (Some (shutdown L), None)
             | Some (msg, e) \<Rightarrow> (None, Some (Wrap msg e)))"
  apply (subst go_call_def)
  apply (simp add: initOtel_def init_stages_def check_def lib_call_def go_defs record_event_def
      split: option.splits)
  done

lemmas init_defs = initOtel_def check_def lib_call_def go_defs record_event_def

lemma initOtel_log:
  "(let w' = snd (go_call (initOtel L env) w); evs = new_events w w'
    in w'\<lparr>events := events w\<rparr> = w \<and> take (length (events w)) (events w') = events w \<and>
       listens evs = [] \<and> fatal_logs evs = [] \<and>
       take 1 evs = [LibCall ''resource.New'' (serviceName env)] \<and>
       lib_calls evs =
         take (Suc (length (takeWhile (\<lambda>(msg, r). r = None) (init_stages L env)))) init_calls)"
proof -
  note defs = init_defs init_stages_def new_events_def Let_def listens_def fatal_logs_def lib_calls_def init_calls_def
  show ?thesis
  proof (cases "resource_New L (serviceName env)")
    case (Some e)
    then show ?thesis by (subst go_call_def) (simp add: defs)
  next
    case s1: None
    show ?thesis
    proof (cases "grpc_NewClient L (otlpEndpoint env)")
      case (Some e)
      with s1 show ?thesis by (subst go_call_def) (simp add: defs)
    next
      case s2: None
      show ?thesis
      proof (cases "otlptracegrpc_New L")
        case (Some e)
        with s1 s2 show ?thesis by (subst go_call_def) (simp add: defs)
      next
        case s3: None
        show ?thesis
        proof (cases "otlpmetricgrpc_New L")
          case (Some e)
          with s1 s2 s3 show ?thesis by (subst go_call_def) (simp add: defs)
        next
          case s4: None
          show ?thesis
          proof (cases "otlploggrpc_New L")
            case (Some e)
            with s1 s2 s3 s4 show ?thesis by (subst go_call_def) (simp add: defs)
          next
            case s5: None
            show ?thesis
            proof (cases "meter_Int64Counter L httpRequestsCounter")
              case (Some e)
              with s1 s2 s3 s4 s5 show ?thesis by (subst go_call_def) (simp add: defs)
            next
              case s6: None
              show ?thesis
              proof (cases "meter_Int64UpDownCounter L httpActiveRequests")
                case (Some e)
                with s1 s2 s3 s4 s5 s6 show ?thesis by (subst go_call_def) (simp add: defs)
              next
                case s7: None
                show ?thesis
                proof (cases "meter_Float64Histogram L workDurationHistogram")
                  case (Some e)
                  with s1 s2 s3 s4 s5 s6 s7 show ?thesis
                    by (subst go_call_def) (simp add: defs)
                next
                  case None
                  with s1 s2 s3 s4 s5 s6 s7 show ?thesis
                    by (subst go_call_def) (simp add: defs)
                qed
              qed
            qed
          qed
        qed
      qed
    qed
  qed
qed

lemma main_fails:
  assumes "first_failure (init_stages L env) = Some (msg, e)"
  shows "go_call (main L env) w =
           (Exit 1, record_event (LogFatal (error_msg (Wrap msg e)))
                      (snd (go_call (initOtel L env) w)))"
proof -
  obtain oc w' where run: "go_call (initOtel L env) w = (oc, w')"
    by (cases "go_call (initOtel L env) w")
  with initOtel_result [of L env w] assms have oc: "oc = Result (None, Some (Wrap msg e))"
    by simp
  show ?thesis
    apply (subst go_call_def)
    apply (simp add: main_def go_bind_def go_invoke_def run oc log_Fatal_def act_def os_Exit_def)
    done
qed

text \<open>
  Claim C4. If a stage of initialization fails (the first one to fail being the one with
  message \<open>msg\<close> and error \<open>e\<close>), then \<open>initOtel\<close> returns no closure and the error \<open>e\<close>
  wrapped with \<open>msg\<close>; it has made the constructor calls up to and including the failing
  one and no later one; \<open>main\<close> ends the process with status 1 after logging the wrapped
  error, and never starts the listener. The eight messages are pairwise different, so the
  message identifies the stage.
\<close>

theorem init_failure_aborts_startup:
  assumes "first_failure (init_stages L env) = Some (msg, e)"
  shows "fst (go_call (initOtel L env) w) = Result (None, Some (Wrap msg e)) \<and>
         lib_calls (new_events w (snd (go_call (initOtel L env) w))) =
           take (Suc (length (takeWhile (\<lambda>(msg, r). r = None) (init_stages L env)))) init_calls \<and>
         fst (go_call (main L env) w) = Exit 1 \<and>
         listens (new_events w (snd (go_call (main L env) w))) = [] \<and>
         fatal_logs (new_events w (snd (go_call (main L env) w))) = [error_msg (Wrap msg e)] \<and>
         distinct (map fst (init_stages L env))"
proof -
  let ?w' = "snd (go_call (initOtel L env) w)"
  let ?evs = "new_events w ?w'"
  have "take (length (events w)) (events ?w') = events w \<and> listens ?evs = [] \<and>
        fatal_logs ?evs = [] \<and>
        lib_calls ?evs =
           take (Suc (length (takeWhile (\<lambda>(msg, r). r = None) (init_stages L env)))) init_calls"
    using initOtel_log [of L env w] unfolding Let_def by blast
  then have pre: "take (length (events w)) (events ?w') = events w"
    and quiet: "listens ?evs = []" "fatal_logs ?evs = []"
    and calls: "lib_calls ?evs =
           take (Suc (length (takeWhile (\<lambda>(msg, r). r = None) (init_stages L env)))) init_calls"
    by blast+
  have ev: "events ?w' = events w @ ?evs"
    unfolding new_events_def using pre by (metis append_take_drop_id)
  have "new_events w (snd (go_call (main L env) w)) =
      drop (length (events w)) (events ?w' @ [LogFatal (error_msg (Wrap msg e))])"
    by (simp add: main_fails [OF assms] record_event_def new_events_def)
  also have "\<dots> = ?evs @ [LogFatal (error_msg (Wrap msg e))]"
    by (subst ev) simp
  finally have main_evs: "new_events w (snd (go_call (main L env) w)) =
      ?evs @ [LogFatal (error_msg (Wrap msg e))]" .
  have listens_main: "listens (new_events w (snd (go_call (main L env) w))) = []"
    using quiet(1) by (simp add: main_evs listens_def)
  have fatal_main: "fatal_logs (new_events w (snd (go_call (main L env) w))) =
      [error_msg (Wrap msg e)]"
    using quiet(2) by (simp add: main_evs fatal_logs_def)
  have res: "fst (go_call (initOtel L env) w) = Result (None, Some (Wrap msg e))"
    using assms by (simp add: initOtel_result)
  have ex: "fst (go_call (main L env) w) = Exit 1"
    by (simp add: main_fails [OF assms])
  have dist: "distinct (map fst (init_stages L env))"
    by (simp add: init_stages_def)
  from res calls ex listens_main fatal_main dist show ?thesis by blast
qed

theorem init_failure_aborts_startup_witness:
  "first_failure (init_stages
      (healthy_sdk\<lparr>otlpmetricgrpc_New := Some (Error ''connection refused'')\<rparr>) Map.empty) =
     Some (''failed to create metric exporter'', Error ''connection refused'') \<and>
   fst (go_call (initOtel
      (healthy_sdk\<lparr>otlpmetricgrpc_New := Some (Error ''connection refused'')\<rparr>) Map.empty)
      process_start) =
     Result (None, Some (Wrap ''failed to create metric exporter'' (Error ''connection refused''))) \<and>
   lib_calls (new_events process_start (snd (go_call (initOtel
      (healthy_sdk\<lparr>otlpmetricgrpc_New := Some (Error ''connection refused'')\<rparr>) Map.empty)
      process_start))) =
     [''resource.New'', ''grpc.NewClient'', ''otlptracegrpc.New'', ''otlpmetricgrpc.New''] \<and>
   fst (go_call (main
      (healthy_sdk\<lparr>otlpmetricgrpc_New := Some (Error ''connection refused'')\<rparr>) Map.empty)
      process_start) = Exit 1 \<and>
   listens (new_events process_start (snd (go_call (main
      (healthy_sdk\<lparr>otlpmetricgrpc_New := Some (Error ''connection refused'')\<rparr>) Map.empty)
      process_start))) = [] \<and>
   fatal_logs (new_events process_start (snd (go_call (main
      (healthy_sdk\<lparr>otlpmetricgrpc_New := Some (Error ''connection refused'')\<rparr>) Map.empty)
      process_start))) = [''failed to create metric exporter: connection refused'']"
proof -
  let ?L = "healthy_sdk\<lparr>otlpmetricgrpc_New := Some (Error ''connection refused'')\<rparr>"
  have h: "first_failure (init_stages ?L Map.empty) =
      Some (''failed to create metric exporter'', Error ''connection refused'')"
    by (simp add: init_stages_def healthy_sdk_def)
  have k: "take (Suc (length (takeWhile (\<lambda>(msg, r). r = None) (init_stages ?L Map.empty))))
        init_calls =
      [''resource.New'', ''grpc.NewClient'', ''otlptracegrpc.New'', ''otlpmetricgrpc.New'']"
    by (simp add: init_stages_def healthy_sdk_def init_calls_def)
  from init_failure_aborts_startup [OF h, of process_start] h k show ?thesis
    by simp
qed

text \<open>
  Claim C5 fails as stated: with \<^verbatim>\<open>OTEL_SERVICE_NAME\<close> unset the service name is the
  empty string, and when the SDK constructors accept what they are given, initialization
  succeeds.
\<close>

theorem absent_service_name_counterexample:
  "serviceName [''OTEL_EXPORTER_OTLP_ENDPOINT'' \<mapsto> ''otel-collector:4317''] = [] \<and>
   fst (go_call (initOtel healthy_sdk [''OTEL_EXPORTER_OTLP_ENDPOINT'' \<mapsto> ''otel-collector:4317''])
          process_start) =
     Result (Some (shutdown healthy_sdk), None)"
  by (simp add: serviceName_def os_Getenv_def initOtel_result init_stages_def healthy_sdk_def)

text \<open>
  Claim C5, amended. An unset variable is read as the empty string; the service name
  and the endpoint are handed as read to \<^verbatim>\<open>resource.New\<close> and \<^verbatim>\<open>grpc.NewClient\<close>, with no
  check by the program; and initialization returns an error exactly when one of the
  constructors returns one (wrapped with the message of its stage), otherwise the closure
  and no error.
\<close>

theorem init_fails_only_when_sdk_rejects:
  "os_Getenv (env(k := None)) k = [] \<and>
   map snd (take 2 (init_stages L env)) =
     [resource_New L (os_Getenv env ''OTEL_SERVICE_NAME''),
      grpc_NewClient L (os_Getenv env ''OTEL_EXPORTER_OTLP_ENDPOINT'')] \<and>
   take 1 (new_events w (snd (go_call (initOtel L env) w))) =
     [LibCall ''resource.New'' (os_Getenv env ''OTEL_SERVICE_NAME'')] \<and>
   fst (go_call (initOtel L env) w) =
     Result (case first_failure (init_stages L env) of
               None \<Rightarrow> (Some (shutdown L), None)
             | Some (msg, e) \<Rightarrow> (None, Some (Wrap msg e)))"
proof -
  have "take 1 (new_events w (snd (go_call (initOtel L env) w))) =
     [LibCall ''resource.New'' (serviceName env)]"
    using initOtel_log [of L env w] unfolding Let_def by blast
  then show ?thesis
    by (simp add: initOtel_result os_Getenv_def init_stages_def serviceName_def otlpEndpoint_def)
qed

subsection \<open>The trace across the outbound call\<close>

lemmas trace_defs = server_def middleware_run mux_def otelhttp_handler_run work_sameprocess_run
  lib_defs Let_def prop_Extract_def propagated_def new_span_context_def span_named_def
  sends_def new_events_def

text \<open>
  Claim C8, as the program has it. A request to \<^verbatim>\<open>/work\<close> is served by this process
  and its outbound call comes back to the same process. \<open>initOtel\<close> never installs a
  propagator, so the global propagator is the no-op one the \<^verbatim>\<open>otel\<close> package
  starts with. Then the outbound request carries no trace context (the one request sent
  has no \<^verbatim>\<open>traceparent\<close>), the server span of \<^verbatim>\<open>/downstream\<close> is the root of a new trace
  (no parent, trace id \<open>n + 7\<close>, not the \<open>n + 1\<close> of the spans of \<^verbatim>\<open>/work\<close>), and the span
  of \<open>downstreamHandler\<close> is in that new trace. Also, the client span is a child of the
  server span \<open>n\<close> of \<^verbatim>\<open>/work\<close>, not of the span \<open>n + 2\<close> that \<open>workHandler\<close> starts: the
  handler drops the context \<^verbatim>\<open>tracer.Start\<close> returns and builds the request from
  \<^verbatim>\<open>r.Context()\<close>.
\<close>

theorem downstream_span_starts_new_trace:
  "(let w0 = w\<lparr>global_propagator := NoopPropagator\<rparr>; n = next_id w;
        evs = new_events w0 (snd (go_call (server (downstreamAPIHTTPClient (SameProcess q))
                \<lparr>url_host = host, url_path = ''/work'', traceparent = tp, req_ctx = None\<rparr>) w0))
    in sends evs = [None] \<and>
       span_named ''work'' evs = Some (\<lparr>trace_id = n + 1, span_id = n\<rparr>, None) \<and>
       span_named ''workHandler.mainOperation'' evs =
         Some (\<lparr>trace_id = n + 1, span_id = n + 2\<rparr>, Some n) \<and>
       span_named ''HTTP GET'' evs = Some (\<lparr>trace_id = n + 1, span_id = n + 4\<rparr>, Some n) \<and>
       span_named ''downstream'' evs = Some (\<lparr>trace_id = n + 7, span_id = n + 6\<rparr>, None) \<and>
       span_named ''downstreamHandler.databaseQuery'' evs =
         Some (\<lparr>trace_id = n + 7, span_id = n + 8\<rparr>, Some (n + 6))) \<and>
   global_propagator (snd (go_call (initOtel L env) w)) = global_propagator w \<and>
   global_propagator process_start = NoopPropagator"
proof -
  have "(snd (go_call (initOtel L env) w))\<lparr>events := events w\<rparr> = w"
    using initOtel_log [of L env w] unfolding Let_def by blast
  then have "global_propagator ((snd (go_call (initOtel L env) w))\<lparr>events := events w\<rparr>) =
      global_propagator w"
    by (rule arg_cong)
  then have keep: "global_propagator (snd (go_call (initOtel L env) w)) = global_propagator w"
    by simp
  show ?thesis
    by (simp add: trace_defs keep process_start_def)
qed

text \<open>
  For comparison: were the W3C trace-context propagator installed, the same run would send
  the client span's context and the server span of \<^verbatim>\<open>/downstream\<close> would be a child of
  the client span, in the trace of \<^verbatim>\<open>/work\<close>.
\<close>

lemma with_trace_context_propagator:
  "(let w0 = w\<lparr>global_propagator := TraceContextPropagator\<rparr>; n = next_id w;
        evs = new_events w0 (snd (go_call (server (downstreamAPIHTTPClient (SameProcess q))
                \<lparr>url_host = host, url_path = ''/work'', traceparent = None, req_ctx = None\<rparr>) w0))
    in sends evs = [Some \<lparr>trace_id = n + 1, span_id = n + 4\<rparr>] \<and>
       span_named ''workHandler.mainOperation'' evs =
         Some (\<lparr>trace_id = n + 1, span_id = n + 2\<rparr>, Some n) \<and>
       span_named ''HTTP GET'' evs = Some (\<lparr>trace_id = n + 1, span_id = n + 4\<rparr>, Some n) \<and>
       span_named ''downstream'' evs =
         Some (\<lparr>trace_id = n + 1, span_id = n + 6\<rparr>, Some (n + 4)))"
  by (simp add: trace_defs)

subsection \<open>The active-requests gauge\<close>

text \<open>
  The trace of a request through the middleware is the increment, then what the handler
  logs, then the decrement, whether the handler returns or panics. Under any schedule the
  gauge of the common log is the sum, over the requests, of the gauge of the part of each
  trace already performed.
\<close>

lemma gauge_adds_append: "gauge_adds (xs @ ys) = gauge_adds xs @ gauge_adds ys"
  by (simp add: gauge_adds_def)

lemma gauge_append: "gauge (xs @ ys) = gauge xs + gauge ys"
  by (simp add: gauge_def gauge_adds_append)

lemma gauge_single: "gauge [UpDownAdd httpActiveRequests n] = n"
  by (simp add: gauge_def gauge_adds_def)

lemma gauge_adds_take:
  assumes "gauge_adds body = []"
  shows "gauge_adds (take k body) = []"
proof -
  have "gauge_adds (take k body @ drop k body) = []"
    using assms by simp
  then show ?thesis
    unfolding gauge_adds_append by simp
qed

lemma request_trace_shape:
  assumes "handler_quiet next r w"
  shows "\<exists>body. request_trace next r w =
           UpDownAdd httpActiveRequests 1 # body @ [UpDownAdd httpActiveRequests (- 1)] \<and>
           gauge_adds body = []"
proof -
  obtain oc w' where run: "go_call (next r) (updown_Add httpActiveRequests 1 w) = (oc, w')"
    by (cases "go_call (next r) (updown_Add httpActiveRequests 1 w)")
  let ?body = "drop (Suc (length (events w))) (events w')"
  from assms run have noexit: "\<And>n. oc \<noteq> Exit n"
    and pre: "take (Suc (length (events w))) (events w') =
                events w @ [UpDownAdd httpActiveRequests 1]"
    and quiet: "gauge_adds ?body = []"
    by (auto simp add: handler_quiet_def)
  have ev: "events w' = (events w @ [UpDownAdd httpActiveRequests 1]) @ ?body"
    using pre by (metis append_take_drop_id)
  have "go_call (activeRequestsMiddleware next r) w =
          (oc, updown_Add httpActiveRequests (- 1) w')"
    using noexit by (cases oc) (auto simp add: middleware_run run)
  then have "request_trace next r w =
      drop (length (events w)) (events w' @ [UpDownAdd httpActiveRequests (- 1)])"
    by (simp add: request_trace_def new_events_def updown_Add_def record_event_def)
  also have "\<dots> = UpDownAdd httpActiveRequests 1 # ?body @ [UpDownAdd httpActiveRequests (- 1)]"
    by (subst ev) simp
  finally show ?thesis using quiet by blast
qed

lemma gauge_prefix:
  assumes "gauge_adds body = []"
  shows "gauge (take p (UpDownAdd httpActiveRequests 1 # body @ [UpDownAdd httpActiveRequests (- 1)])) =
           (if 0 < p then 1 else 0) - (if length body + 2 \<le> p then 1 else 0)"
proof (cases p)
  case 0
  then show ?thesis by (simp add: gauge_def gauge_adds_def)
next
  case (Suc k)
  have "gauge (take k body) = 0"
    using gauge_adds_take [OF assms, of k] by (simp add: gauge_def)
  then show ?thesis
    using Suc gauge_append [of "[UpDownAdd httpActiveRequests 1]"
        "take k body @ take (k - length body) [UpDownAdd httpActiveRequests (- 1)]"]
    by (cases "k - length body") (auto simp add: gauge_append gauge_single gauge_def gauge_adds_def)
qed

lemma sum_zip_update:
  fixes F :: "'a \<times> nat \<Rightarrow> int"
  assumes "i < length pool" and "length ps = length pool"
  shows "sum_list (map F (zip pool (ps[i := q]))) =
           sum_list (map F (zip pool ps)) - F (pool ! i, ps ! i) + F (pool ! i, q)"
  using assms
proof (induction pool arbitrary: i ps)
  case Nil
  then show ?case by simp
next
  case (Cons tr pool)
  then obtain p ps' where ps: "ps = p # ps'" by (cases ps) auto
  show ?case
  proof (cases i)
    case 0
    then show ?thesis using ps by simp
  next
    case (Suc j)
    then show ?thesis using ps Cons.prems Cons.IH [of j ps'] by simp
  qed
qed

lemma sched_step_inv:
  assumes "length ps = length pool"
    and "gauge log = sum_list (map (\<lambda>(tr, p). gauge (take p tr)) (zip pool ps))"
    and "sched_step pool i (ps, log) = (ps', log')"
  shows "length ps' = length pool \<and>
         gauge log' = sum_list (map (\<lambda>(tr, p). gauge (take p tr)) (zip pool ps'))"
proof (cases "i < length pool \<and> i < length ps \<and> ps ! i < length (pool ! i)")
  case False
  with assms show ?thesis by (auto simp add: sched_step_def)
next
  case True
  with assms(3) have ps': "ps' = ps[i := Suc (ps ! i)]" and log': "log' = log @ [pool ! i ! (ps ! i)]"
    by (simp_all add: sched_step_def)
  have "take (Suc (ps ! i)) (pool ! i) = take (ps ! i) (pool ! i) @ [pool ! i ! (ps ! i)]"
    using True by (simp add: take_Suc_conv_app_nth)
  then have "gauge (take (Suc (ps ! i)) (pool ! i)) =
      gauge (take (ps ! i) (pool ! i)) + gauge [pool ! i ! (ps ! i)]"
    by (simp add: gauge_append)
  then show ?thesis
    using True assms(1,2)
    by (simp add: ps' log' gauge_append
        sum_zip_update [of i pool ps "\<lambda>(tr, p). gauge (take p tr)"])
qed

lemma fold_sched_inv:
  assumes "length ps = length pool"
    and "gauge log = sum_list (map (\<lambda>(tr, p). gauge (take p tr)) (zip pool ps))"
    and "fold (sched_step pool) sched (ps, log) = (ps', log')"
  shows "length ps' = length pool \<and>
         gauge log' = sum_list (map (\<lambda>(tr, p). gauge (take p tr)) (zip pool ps'))"
  using assms
proof (induction sched arbitrary: ps log)
  case Nil
  then show ?case by simp
next
  case (Cons i sched)
  obtain ps1 log1 where step: "sched_step pool i (ps, log) = (ps1, log1)"
    by (cases "sched_step pool i (ps, log)")
  from sched_step_inv [OF Cons.prems(1,2) step] Cons.prems(3) step
  show ?case by (intro Cons.IH [of ps1 log1]) simp_all
qed

lemma shaped_sum:
  assumes "length pool = length ps"
    and "\<forall>tr\<in>set pool. \<exists>body.
           tr = UpDownAdd httpActiveRequests 1 # body @ [UpDownAdd httpActiveRequests (- 1)] \<and>
           gauge_adds body = []"
  shows "sum_list (map (\<lambda>(tr, p). gauge (take p tr)) (zip pool ps)) =
           int (started_requests ps) - int (finished_requests pool ps) \<and>
         finished_requests pool ps \<le> started_requests ps \<and>
         started_requests ps \<le> length pool"
  using assms
proof (induction pool ps rule: list_induct2)
  case Nil
  then show ?case by (simp add: started_requests_def finished_requests_def)
next
  case (Cons tr pool p ps)
  then obtain body where tr: "tr = UpDownAdd httpActiveRequests 1 # body @
      [UpDownAdd httpActiveRequests (- 1)]" and body: "gauge_adds body = []"
    by auto
  have g: "gauge (take p tr) = (if 0 < p then 1 else 0) - (if length body + 2 \<le> p then 1 else 0)"
    unfolding tr by (rule gauge_prefix [OF body])
  have len: "length tr = length body + 2"
    by (simp add: tr)
  from Cons have IH: "sum_list (map (\<lambda>(tr, p). gauge (take p tr)) (zip pool ps)) =
           int (started_requests ps) - int (finished_requests pool ps) \<and>
         finished_requests pool ps \<le> started_requests ps \<and>
         started_requests ps \<le> length pool"
    by simp
  show ?case
    using IH g len by (auto simp add: started_requests_def finished_requests_def)
qed

text \<open>
  Claim C7. Take any finite set of requests whose handlers, run inside the middleware,
  return or panic and leave the active-requests instrument alone, and any schedule
  interleaving the events of their runs. After the schedule (hence at every instant, a
  prefix of a schedule being a schedule) the gauge equals the number of requests started
  minus the number finished, and it is 0 once all requests have finished. The middleware
  itself increments on entry and decrements on exit through \<^verbatim>\<open>defer\<close>, so the decrement
  also happens when the handler panics; only a handler that ends the process skips it.
\<close>

theorem active_requests_gauge:
  assumes "\<forall>(next, r, w) \<in> set reqs. handler_quiet next r w"
  shows "(let pool = map (\<lambda>(next, r, w). request_trace next r w) reqs;
              (ps, log) = run_schedule pool sched
          in gauge log = int (started_requests ps) - int (finished_requests pool ps) \<and>
             (finished_requests pool ps = length reqs \<longrightarrow> gauge log = 0)) \<and>
         go_call (activeRequestsMiddleware next r) w =
           (case go_call (next r) (updown_Add httpActiveRequests 1 w) of
              (Exit n, w') \<Rightarrow> (Exit n, w')
            | (oc, w') \<Rightarrow> (oc, updown_Add httpActiveRequests (- 1) w'))"
proof -
  let ?pool = "map (\<lambda>(next, r, w). request_trace next r w) reqs"
  obtain ps log where run: "run_schedule ?pool sched = (ps, log)"
    by (cases "run_schedule ?pool sched")
  have shaped: "\<forall>tr\<in>set ?pool. \<exists>body.
           tr = UpDownAdd httpActiveRequests 1 # body @ [UpDownAdd httpActiveRequests (- 1)] \<and>
           gauge_adds body = []"
    using assms request_trace_shape by fastforce
  have init: "gauge [] = sum_list (map (\<lambda>(tr, p). gauge (take p tr))
      (zip ?pool (replicate (length ?pool) 0)))"
    by (simp add: gauge_def gauge_adds_def zip_replicate2 o_def split_def)
  from fold_sched_inv [of "replicate (length ?pool) 0" ?pool "[]" sched ps log] init run
  have inv: "length ps = length ?pool"
    "gauge log = sum_list (map (\<lambda>(tr, p). gauge (take p tr)) (zip ?pool ps))"
    by (simp_all add: run_schedule_def)
  from shaped_sum [of ?pool ps] inv(1) shaped
  have sum: "sum_list (map (\<lambda>(tr, p). gauge (take p tr)) (zip ?pool ps)) =
           int (started_requests ps) - int (finished_requests ?pool ps)"
    and le: "finished_requests ?pool ps \<le> started_requests ps"
      "started_requests ps \<le> length ?pool"
    by simp_all
  have "gauge log = int (started_requests ps) - int (finished_requests ?pool ps)"
    using inv(2) sum by simp
  moreover from this le have "finished_requests ?pool ps = length reqs \<longrightarrow> gauge log = 0"
    by simp
  ultimately show ?thesis
    by (simp add: run middleware_run Let_def)
qed

theorem active_requests_gauge_witness:
  "handler_quiet helloHandler hello_request process_start \<and>
   handler_quiet panicHandler hello_request process_start \<and>
   (let pool = map (\<lambda>(next, r, w). request_trace next r w)
                 [(helloHandler, hello_request, process_start),
                  (panicHandler, hello_request, process_start)];
        (ps, log) = run_schedule pool [0, 1, 0]
    in gauge log = 2 \<and> started_requests ps = 2 \<and> finished_requests pool ps = 0) \<and>
   (let pool = map (\<lambda>(next, r, w). request_trace next r w)
                 [(helloHandler, hello_request, process_start),
                  (panicHandler, hello_request, process_start)];
        (ps, log) = run_schedule pool [0, 1, 0, 1, 0, 0, 0, 0, 0, 0]
    in gauge log = 0 \<and> started_requests ps = 2 \<and> finished_requests pool ps = 2)"
proof -
  let ?reqs = "[(helloHandler, hello_request, process_start),
                (panicHandler, hello_request, process_start)]"
  let ?pool = "map (\<lambda>(next, r, w). request_trace next r w) ?reqs"
  have panic_run: "\<And>w. go_call (panicHandler hello_request) w = (Panic ''runtime error'', w)"
    by (simp add: go_call_def panicHandler_def go_panic_def)
  have q1: "handler_quiet helloHandler hello_request process_start"
    by (simp add: handler_quiet_def hello_run updown_Add_def record_event_def gauge_adds_def
        process_start_def)
  have q2: "handler_quiet panicHandler hello_request process_start"
    by (simp add: handler_quiet_def panic_run updown_Add_def record_event_def gauge_adds_def
        process_start_def)
  have quiet: "\<forall>(next, r, w) \<in> set ?reqs. handler_quiet next r w"
    using q1 q2 by simp
  have len: "map length ?pool = [8, 2]"
    by (simp add: request_trace_def middleware_run hello_run panic_run new_events_def
        updown_Add_def record_event_def process_start_def)
  obtain t1 t2 where pool: "?pool = [t1, t2]" and l1: "length t1 = 8" and l2: "length t2 = 2"
    using len by auto
  have part: "fst (run_schedule [t1, t2] [0, 1, 0]) = [2, 1]"
    using l1 l2 by (simp add: run_schedule_def sched_step_def)
  have full: "fst (run_schedule [t1, t2] [0, 1, 0, 1, 0, 0, 0, 0, 0, 0]) = [8, 2]"
    using l1 l2 by (simp add: run_schedule_def sched_step_def)
  from active_requests_gauge [OF quiet, of "[0, 1, 0]"]
  have a: "(let (ps, log) = run_schedule ?pool [0, 1, 0]
            in gauge log = 2 \<and> started_requests ps = 2 \<and> finished_requests ?pool ps = 0)"
    unfolding Let_def pool using part l1 l2
    by (cases "run_schedule [t1, t2] [0, 1, 0]")
       (simp add: started_requests_def finished_requests_def)
  from active_requests_gauge [OF quiet, of "[0, 1, 0, 1, 0, 0, 0, 0, 0, 0]"]
  have b: "(let (ps, log) = run_schedule ?pool [0, 1, 0, 1, 0, 0, 0, 0, 0, 0]
            in gauge log = 0 \<and> started_requests ps = 2 \<and> finished_requests ?pool ps = 2)"
    unfolding Let_def pool using full l1 l2
    by (cases "run_schedule [t1, t2] [0, 1, 0, 1, 0, 0, 0, 0, 0, 0]")
       (simp add: started_requests_def finished_requests_def)
  from q1 q2 a b show ?thesis unfolding Let_def by blast
qed

end
